theory Spec2Isabelle
  imports Complex_Main "HOL-Library.Sublist" "HOL-Library.Log_Nat"
begin

section \<open>Python text\<close>

text \<open>
  A Python \<open>str\<close> is a sequence of Unicode code points; it is modelled as a list of
  the code points' numbers, so that \<open>length\<close> counts what \<open>len\<close> counts. A literal
  of the source is written \<open>ascii ''...''\<close>.
\<close>

type_synonym pystr = "nat list"

definition ascii :: "string \<Rightarrow> pystr" where
  "ascii s = map of_char s"

text \<open>
  \<open>s.find(sub)\<close> and \<open>s.rfind(sub)\<close>: the lowest and the highest index at which
  \<open>sub\<close> occurs in \<open>s\<close>, and \<open>-1\<close> when it occurs nowhere. Occurrences may overlap.
\<close>

definition occurrences :: "'a list \<Rightarrow> 'a list \<Rightarrow> nat list" where
  "occurrences sub s = filter (\<lambda>i. prefix sub (drop i s)) [0..<Suc (length s)]"

definition py_find :: "'a list \<Rightarrow> 'a list \<Rightarrow> int" where
  "py_find s sub = (case occurrences sub s of [] \<Rightarrow> - 1 | i # _ \<Rightarrow> int i)"

definition py_rfind :: "'a list \<Rightarrow> 'a list \<Rightarrow> int" where
  "py_rfind s sub = (case occurrences sub s of [] \<Rightarrow> - 1 | i # js \<Rightarrow> int (last (i # js)))"

text \<open>
  The slice \<open>s[a:b]\<close>: a negative bound counts from the end, both bounds are clamped
  to the string, and the slice is empty when the upper bound is not above the lower one.
\<close>

definition slice_bound :: "nat \<Rightarrow> int \<Rightarrow> nat" where
  "slice_bound n i = (if i < 0 then nat (max 0 (int n + i)) else min n (nat i))"

definition py_slice :: "'a list \<Rightarrow> int \<Rightarrow> int \<Rightarrow> 'a list" where
  "py_slice s a b =
     (let lo = slice_bound (length s) a; hi = slice_bound (length s) b
      in take (hi - lo) (drop lo s))"

text \<open>
  \<open>str.isspace\<close> for one character: the code points whose bidirectional class is
  WS, B or S, or whose category is Zs. \<open>s.strip()\<close> removes them from both ends.
\<close>

definition is_space :: "nat \<Rightarrow> bool" where
  "is_space c \<longleftrightarrow>
     (if c < 256
      then (9 \<le> c \<and> c \<le> 13) \<or> (28 \<le> c \<and> c \<le> 32) \<or> c = 133 \<or> c = 160
      else c = 5760 \<or> (8192 \<le> c \<and> c \<le> 8202) \<or> c = 8232 \<or> c = 8233 \<or>
           c = 8239 \<or> c = 8287 \<or> c = 12288)"

definition strip_where :: "('a \<Rightarrow> bool) \<Rightarrow> 'a list \<Rightarrow> 'a list" where
  "strip_where P s = rev (dropWhile P (rev (dropWhile P s)))"

definition py_strip :: "pystr \<Rightarrow> pystr" where
  "py_strip s = strip_where is_space s"

section \<open>Locating the fenced payload\<close>

definition fence :: pystr where
  "fence = ascii ''```''"

text \<open>
  Lines 34 to 36 of \<open>get_disease_info\<close>: the text handed to the JSON decoder.
\<close>

definition json_text :: "pystr \<Rightarrow> pystr" where
  "json_text content =
     (let json_start = py_find content fence + 3;
          json_end = py_rfind content fence
      in if json_start > 2 \<and> json_end > 0
         then py_strip (py_slice content json_start json_end)
         else content)"

section \<open>Python values\<close>

text \<open>
  A binary64 float is kept as the rational number it denotes, or as one of the three
  special values. The sign of a zero is not kept.
\<close>

datatype pyfloat = Fl rat | PosInf | NegInf | NaN

text \<open>
  The values \<open>json.loads\<close> can return: \<open>None\<close>, booleans, integers, floats, strings,
  lists and dictionaries. A dictionary keeps its entries in insertion order, with
  string keys that do not repeat.
\<close>

datatype json =
    JNull
  | JBool bool
  | JInt int
  | JFloat pyfloat
  | JStr pystr
  | JList "json list"
  | JDict "(pystr \<times> json) list"

datatype exn =
  AttributeError | TypeError | ValueError | JSONDecodeError | UnicodeEncodeError

text \<open>
  \<open>JSONDecodeError\<close> and \<open>UnicodeEncodeError\<close> are subclasses of \<open>ValueError\<close>.
\<close>

definition is_ValueError :: "exn \<Rightarrow> bool" where
  "is_ValueError e \<longleftrightarrow> e = ValueError \<or> e = JSONDecodeError \<or> e = UnicodeEncodeError"

text \<open>The truth value of an object, as \<open>if not info\<close> tests it.\<close>

fun truthy :: "json \<Rightarrow> bool" where
  "truthy JNull = False"
| "truthy (JBool b) = b"
| "truthy (JInt i) = (i \<noteq> 0)"
| "truthy (JFloat f) = (f \<noteq> Fl 0)"
| "truthy (JStr s) = (s \<noteq> [])"
| "truthy (JList xs) = (xs \<noteq> [])"
| "truthy (JDict kvs) = (kvs \<noteq> [])"

text \<open>
  \<open>obj.get(key, dflt)\<close> and \<open>obj.items()\<close> exist on dictionaries only; on any
  other value the attribute lookup raises \<open>AttributeError\<close>.
\<close>

fun py_get :: "json \<Rightarrow> pystr \<Rightarrow> json \<Rightarrow> exn + json" where
  "py_get (JDict kvs) key dflt =
     Inr (case map_of kvs key of None \<Rightarrow> dflt | Some v \<Rightarrow> v)"
| "py_get _ key dflt = Inl AttributeError"

fun py_items :: "json \<Rightarrow> exn + (pystr \<times> json) list" where
  "py_items (JDict kvs) = Inr kvs"
| "py_items _ = Inl AttributeError"

text \<open>
  Iteration: a list yields its elements, a string its characters (as strings of
  length one), a dictionary its keys; nothing else is iterable.
\<close>

fun py_iter :: "json \<Rightarrow> exn + json list" where
  "py_iter (JList xs) = Inr xs"
| "py_iter (JStr s) = Inr (map (\<lambda>c. JStr [c]) s)"
| "py_iter (JDict kvs) = Inr (map (\<lambda>kv. JStr (fst kv)) kvs)"
| "py_iter _ = Inl TypeError"

fun is_JStr :: "json \<Rightarrow> bool" where
  "is_JStr (JStr s) = True"
| "is_JStr _ = False"

fun str_of :: "json \<Rightarrow> pystr" where
  "str_of (JStr s) = s"
| "str_of _ = []"

fun join_strs :: "pystr \<Rightarrow> pystr list \<Rightarrow> pystr" where
  "join_strs sep [] = []"
| "join_strs sep [x] = x"
| "join_strs sep (x # y # ys) = x @ sep @ join_strs sep (y # ys)"

text \<open>
  \<open>sep.join(obj)\<close>: \<open>TypeError\<close> unless \<open>obj\<close> is iterable and every item is a
  string.
\<close>

definition py_join :: "pystr \<Rightarrow> json \<Rightarrow> exn + pystr" where
  "py_join sep obj =
     (case py_iter obj of
        Inl e \<Rightarrow> Inl TypeError
      | Inr xs \<Rightarrow> if list_all is_JStr xs then Inr (join_strs sep (map str_of xs))
                 else Inl TypeError)"

text \<open>\<open>obj.strip(chars)\<close> exists on strings only.\<close>

fun py_strip_chars :: "json \<Rightarrow> pystr \<Rightarrow> exn + pystr" where
  "py_strip_chars (JStr s) chars = Inr (strip_where (\<lambda>c. c \<in> set chars) s)"
| "py_strip_chars _ chars = Inl AttributeError"

section \<open>Converting text to a float\<close>

text \<open>
  Rounding a rational to binary64, to nearest with ties to even: 53 bits of
  precision, exponents from \<open>-1022\<close> (below which the spacing stays that of the
  subnormals) to \<open>1023\<close>; a value that rounds to \<open>2 ^ 1024\<close> or more is infinite.
\<close>

definition pow2 :: "int \<Rightarrow> rat" where
  "pow2 e = (if 0 \<le> e then 2 ^ nat e else 1 / 2 ^ nat (- e))"

definition floor_log2 :: "rat \<Rightarrow> int" where
  "floor_log2 a =
     (let (p, q) = quotient_of a; d = bitlen p - bitlen q
      in if pow2 d \<le> a then d else d - 1)"

definition round_half_even :: "rat \<Rightarrow> int" where
  "round_half_even t =
     (let f = \<lfloor>t\<rfloor>; r = t - of_int f
      in if r < 1 / 2 then f else if 1 / 2 < r then f + 1
         else if even f then f else f + 1)"

definition binary64 :: "rat \<Rightarrow> pyfloat" where
  "binary64 x =
     (if x = 0 then Fl 0
      else let a = \<bar>x\<bar>;
               e = max (floor_log2 a) (- 1022);
               q = pow2 (e - 52);
               n = round_half_even (a / q);
               y = of_int n * q
           in if 1024 \<le> e \<or> (e = 1023 \<and> n = 2 ^ 53)
              then (if x < 0 then NegInf else PosInf)
              else Fl (if x < 0 then - y else y))"

text \<open>
  \<open>float(s)\<close> on a string. A string with a character outside ASCII is first
  rewritten: a Unicode space becomes a blank and a decimal digit of any script its
  ASCII digit; the first other character from 127 on becomes a question mark and ends
  the string. The decimal digits outside ASCII come in runs of ten, listed by their
  zeros.
\<close>

definition decimal_zeros :: "nat list" where
  "decimal_zeros =
     [1632, 1776, 1984, 2406, 2534, 2662, 2790, 2918, 3046, 3174, 3302, 3430, 3558,
      3664, 3792, 3872, 4160, 4240, 6112, 6160, 6470, 6608, 6784, 6800, 6992, 7088,
      7232, 7248, 42528, 43216, 43264, 43472, 43504, 43600, 44016, 65296, 66720,
      68912, 69734, 69872, 69942, 70096, 70384, 70736, 70864, 71248, 71360, 71472,
      71904, 72016, 72784, 73040, 73120, 92768, 92864, 93008, 120782, 120792, 120802,
      120812, 120822, 123200, 123632, 125264, 130032]"

definition decimal_value :: "nat \<Rightarrow> nat option" where
  "decimal_value c =
     map_option (\<lambda>z. c - z) (find (\<lambda>z. z \<le> c \<and> c < z + 10) decimal_zeros)"

fun transform_decimal_and_space :: "pystr \<Rightarrow> pystr" where
  "transform_decimal_and_space [] = []"
| "transform_decimal_and_space (c # cs) =
     (if c < 127 then c # transform_decimal_and_space cs
      else if is_space c then 32 # transform_decimal_and_space cs
      else case decimal_value c of
             Some d \<Rightarrow> (48 + d) # transform_decimal_and_space cs
           | None \<Rightarrow> [63])"

definition is_digit :: "nat \<Rightarrow> bool" where
  "is_digit c \<longleftrightarrow> 48 \<le> c \<and> c \<le> 57"

definition is_c_space :: "nat \<Rightarrow> bool" where
  "is_c_space c \<longleftrightarrow> (9 \<le> c \<and> c \<le> 13) \<or> c = 32"

text \<open>
  An underscore is dropped when it stands between two digits and refuses the string
  anywhere else. The first argument is the character before.
\<close>

fun drop_underscores :: "nat \<Rightarrow> pystr \<Rightarrow> pystr option" where
  "drop_underscores prev [] = (if prev = 95 then None else Some [])"
| "drop_underscores prev (c # cs) =
     (if c = 95 then (if is_digit prev then drop_underscores c cs else None)
      else if prev = 95 \<and> \<not> is_digit c then None
      else map_option ((#) c) (drop_underscores c cs))"

definition digits_value :: "pystr \<Rightarrow> nat" where
  "digits_value ds = foldl (\<lambda>a c. 10 * a + (c - 48)) 0 ds"

definition parse_sign :: "pystr \<Rightarrow> bool \<times> pystr" where
  "parse_sign s =
     (case s of
        [] \<Rightarrow> (False, [])
      | c # cs \<Rightarrow> if c = 45 then (True, cs) else if c = 43 then (False, cs) else (False, s))"

definition parse_exponent :: "pystr \<Rightarrow> int \<times> pystr" where
  "parse_exponent s =
     (case s of
        [] \<Rightarrow> (0, [])
      | c # cs \<Rightarrow>
          if c = 101 \<or> c = 69
          then let (neg, r) = parse_sign cs; ds = takeWhile is_digit r
               in if ds = [] then (0, s)
                  else ((if neg then - int (digits_value ds) else int (digits_value ds)),
                        dropWhile is_digit r)
          else (0, s))"

text \<open>
  The decimal grammar: a sign, digits with at most one point and at least one digit,
  and an exponent that is taken only when it has digits. The result is the exact
  value read and the text left over.
\<close>

definition strtod :: "pystr \<Rightarrow> (rat \<times> pystr) option" where
  "strtod s =
     (let (neg, s1) = parse_sign s;
          ip = takeWhile is_digit s1; s2 = dropWhile is_digit s1;
          (fp, s3) = (case s2 of
                        [] \<Rightarrow> ([], [])
                      | c # cs \<Rightarrow> if c = 46 then (takeWhile is_digit cs, dropWhile is_digit cs)
                                 else ([], s2))
      in if ip = [] \<and> fp = [] then None
         else let (e, s4) = parse_exponent s3;
                  m = of_nat (digits_value (ip @ fp)) :: rat;
                  k = e - int (length fp);
                  v = (if 0 \<le> k then m * 10 ^ nat k else m / 10 ^ nat (- k))
              in Some (if neg then - v else v, s4))"

definition to_lower :: "nat \<Rightarrow> nat" where
  "to_lower c = (if 65 \<le> c \<and> c \<le> 90 then c + 32 else c)"

definition parse_inf_or_nan :: "pystr \<Rightarrow> pyfloat option" where
  "parse_inf_or_nan s =
     (let (neg, r) = parse_sign s; w = map to_lower r
      in if w = ascii ''inf'' \<or> w = ascii ''infinity''
         then Some (if neg then NegInf else PosInf)
         else if w = ascii ''nan'' then Some NaN else None)"

definition py_float :: "pystr \<Rightarrow> exn + pyfloat" where
  "py_float s =
     (let t = (if list_all (\<lambda>c. c < 128) s then s else transform_decimal_and_space s);
          u = strip_where is_c_space t
      in case drop_underscores 0 u of
           None \<Rightarrow> Inl ValueError
         | Some w \<Rightarrow>
             (case strtod w of
                Some (v, rest) \<Rightarrow> if rest = [] then Inr (binary64 v) else Inl ValueError
              | None \<Rightarrow>
                  (case parse_inf_or_nan w of
                     Some f \<Rightarrow> Inr f
                   | None \<Rightarrow> Inl ValueError)))"

section \<open>Decoding JSON\<close>

text \<open>
  \<open>json.loads\<close> with its default settings, as a tokeniser followed by a parser that
  keeps the open containers on a stack. Every failure of the decoder is the one
  exception \<open>JSONDecodeError\<close>. The limits of the interpreter (recursion depth, the
  length of an integer literal, memory) are not part of the model.
\<close>

datatype token =
    TLBrace | TRBrace | TLBracket | TRBracket | TColon | TComma
  | TValue json

definition hex_value :: "nat \<Rightarrow> nat option" where
  "hex_value c =
     (if 48 \<le> c \<and> c \<le> 57 then Some (c - 48)
      else if 97 \<le> c \<and> c \<le> 102 then Some (c - 87)
      else if 65 \<le> c \<and> c \<le> 70 then Some (c - 55)
      else None)"

definition hex4 :: "nat \<Rightarrow> nat \<Rightarrow> nat \<Rightarrow> nat \<Rightarrow> nat option" where
  "hex4 a b c d =
     (case (hex_value a, hex_value b, hex_value c, hex_value d) of
        (Some w, Some x, Some y, Some z) \<Rightarrow> Some (((w * 16 + x) * 16 + y) * 16 + z)
      | _ \<Rightarrow> None)"

definition escape_char :: "nat \<Rightarrow> nat option" where
  "escape_char e =
     (if e = 34 \<or> e = 92 \<or> e = 47 then Some e
      else if e = 98 then Some 8 else if e = 102 then Some 12
      else if e = 110 then Some 10 else if e = 114 then Some 13
      else if e = 116 then Some 9 else None)"

definition is_high_surrogate :: "nat \<Rightarrow> bool" where
  "is_high_surrogate u \<longleftrightarrow> 55296 \<le> u \<and> u \<le> 56319"

definition is_low_surrogate :: "nat \<Rightarrow> bool" where
  "is_low_surrogate u \<longleftrightarrow> 56320 \<le> u \<and> u \<le> 57343"

text \<open>
  The low surrogate that follows at the head of the text, when one is written there as
  an escape.
\<close>

definition low_surrogate_ahead :: "pystr \<Rightarrow> nat option" where
  "low_surrogate_ahead s =
     (case s of
        b # u # a2 # b2 # c2 # d2 # rest \<Rightarrow>
          if b = 92 \<and> u = 117
          then (case hex4 a2 b2 c2 d2 of
                  Some l \<Rightarrow> if is_low_surrogate l then Some l else None
                | None \<Rightarrow> None)
          else None
      | _ \<Rightarrow> None)"

text \<open>
  The body of a string, from behind its opening quote: the decoded characters and the
  text behind the closing quote. A character below 32 is refused.
\<close>

fun scanstring :: "pystr \<Rightarrow> (pystr \<times> pystr) option" where
  "scanstring [] = None"
| "scanstring (c # cs) =
     (if c = 34 then Some ([], cs)
      else if c < 32 then None
      else if c \<noteq> 92 then map_option (\<lambda>(s, r). (c # s, r)) (scanstring cs)
      else (case cs of
              [] \<Rightarrow> None
            | e # es \<Rightarrow>
                if e \<noteq> 117
                then (case escape_char e of
                        None \<Rightarrow> None
                      | Some x \<Rightarrow> map_option (\<lambda>(s, r). (x # s, r)) (scanstring es))
                else (case es of
                        a # b # c' # d # rest \<Rightarrow>
                          (case hex4 a b c' d of
                             None \<Rightarrow> None
                           | Some h \<Rightarrow>
                               (case (if is_high_surrogate h then low_surrogate_ahead rest
                                      else None) of
                                  Some l \<Rightarrow>
                                    map_option
                                      (\<lambda>(s, r). ((65536 + (h - 55296) * 1024 + (l - 56320)) # s, r))
                                      (scanstring (drop 6 rest))
                                | None \<Rightarrow> map_option (\<lambda>(s, r). (h # s, r)) (scanstring rest)))
                      | _ \<Rightarrow> None)))"

text \<open>
  A number, from its first character: an optional minus, an integer part without a
  leading zero, and a fraction and an exponent that are taken only when they have
  digits. It is an \<open>int\<close> when it has neither, and the \<open>float\<close> of its text otherwise.
\<close>

definition match_number :: "pystr \<Rightarrow> (json \<times> pystr) option" where
  "match_number s =
     (let (sign, s1) = (case s of [] \<Rightarrow> ([], s) | c # cs \<Rightarrow> if c = 45 then ([c], cs) else ([], s))
      in case s1 of
           [] \<Rightarrow> None
         | d # ds \<Rightarrow>
             if \<not> is_digit d then None
             else let ip = (if d = 48 then [d] else d # takeWhile is_digit ds);
                      s2 = (if d = 48 then ds else dropWhile is_digit ds);
                      (frac, s3) =
                        (case s2 of
                           [] \<Rightarrow> ([], s2)
                         | c # cs \<Rightarrow>
                             if c = 46 \<and> takeWhile is_digit cs \<noteq> []
                             then (c # takeWhile is_digit cs, dropWhile is_digit cs)
                             else ([], s2));
                      (ex, s4) =
                        (case s3 of
                           [] \<Rightarrow> ([], s3)
                         | c # cs \<Rightarrow>
                             if c = 101 \<or> c = 69
                             then let (sg, r) =
                                        (case cs of
                                           [] \<Rightarrow> ([], cs)
                                         | x # xs \<Rightarrow> if x = 45 \<or> x = 43 then ([x], xs)
                                                    else ([], cs))
                                  in if takeWhile is_digit r \<noteq> []
                                     then (c # sg @ takeWhile is_digit r, dropWhile is_digit r)
                                     else ([], s3)
                             else ([], s3))
                  in if frac = [] \<and> ex = []
                     then Some (JInt (if sign = [] then int (digits_value ip)
                                      else - int (digits_value ip)), s4)
                     else (case py_float (sign @ ip @ frac @ ex) of
                             Inr f \<Rightarrow> Some (JFloat f, s4)
                           | Inl e \<Rightarrow> None))"

definition constants :: "(string \<times> json) list" where
  "constants =
     [(''null'', JNull), (''true'', JBool True), (''false'', JBool False),
      (''NaN'', JFloat NaN), (''Infinity'', JFloat PosInf), (''-Infinity'', JFloat NegInf)]"

definition match_constant :: "pystr \<Rightarrow> (json \<times> pystr) option" where
  "match_constant s =
     map_option (\<lambda>(w, v). (v, drop (length w) s))
       (find (\<lambda>(w, v). prefix (ascii w) s) constants)"

definition punctuation :: "nat \<Rightarrow> token option" where
  "punctuation c =
     (if c = 123 then Some TLBrace else if c = 125 then Some TRBrace
      else if c = 91 then Some TLBracket else if c = 93 then Some TRBracket
      else if c = 58 then Some TColon else if c = 44 then Some TComma
      else None)"

text \<open>The token at the head of the text, and the text behind it.\<close>

definition next_token :: "pystr \<Rightarrow> (token \<times> pystr) option" where
  "next_token s =
     (case s of
        [] \<Rightarrow> None
      | c # cs \<Rightarrow>
          (case punctuation c of
             Some t \<Rightarrow> Some (t, cs)
           | None \<Rightarrow>
               if c = 34 then map_option (\<lambda>(x, r). (TValue (JStr x), r)) (scanstring cs)
               else (case match_constant s of
                       Some (v, r) \<Rightarrow> Some (TValue v, r)
                     | None \<Rightarrow> map_option (\<lambda>(v, r). (TValue v, r)) (match_number s))))"

definition is_json_space :: "nat \<Rightarrow> bool" where
  "is_json_space c \<longleftrightarrow> c = 32 \<or> c = 9 \<or> c = 10 \<or> c = 13"

text \<open>
  The tokens of a text. The first argument counts the characters of the token just
  read that are still to be passed over.
\<close>

fun lex :: "nat \<Rightarrow> pystr \<Rightarrow> token list option" where
  "lex k [] = Some []"
| "lex (Suc k) (c # cs) = lex k cs"
| "lex 0 (c # cs) =
     (if is_json_space c then lex 0 cs
      else case next_token (c # cs) of
             None \<Rightarrow> None
           | Some (t, r) \<Rightarrow> map_option ((#) t) (lex (length cs - length r) cs))"

text \<open>
  Storing a key: a key that is there already keeps its place and takes the new value.
\<close>

fun dict_set :: "(pystr \<times> json) list \<Rightarrow> pystr \<Rightarrow> json \<Rightarrow> (pystr \<times> json) list" where
  "dict_set [] k v = [(k, v)]"
| "dict_set (p # ps) k v = (if fst p = k then (k, v) # ps else p # dict_set ps k v)"

datatype frame =
    InList "json list"
  | InDict "(pystr \<times> json) list"
  | InPair "(pystr \<times> json) list" pystr

datatype expect =
    WantValue
  | WantValueOrClose
  | WantKeyOrClose
  | WantKey
  | WantColon
  | AfterValue
  | Finished json

fun accept_value :: "json \<Rightarrow> frame list \<Rightarrow> (expect \<times> frame list) option" where
  "accept_value v [] = Some (Finished v, [])"
| "accept_value v (InList xs # st) = Some (AfterValue, InList (xs @ [v]) # st)"
| "accept_value v (InPair kvs k # st) = Some (AfterValue, InDict (dict_set kvs k v) # st)"
| "accept_value v (InDict kvs # st) = None"

fun begin_value :: "frame list \<Rightarrow> token \<Rightarrow> (expect \<times> frame list) option" where
  "begin_value st (TValue v) = accept_value v st"
| "begin_value st TLBracket = Some (WantValueOrClose, InList [] # st)"
| "begin_value st TLBrace = Some (WantKeyOrClose, InDict [] # st)"
| "begin_value st _ = None"

fun begin_pair :: "frame list \<Rightarrow> token \<Rightarrow> (expect \<times> frame list) option" where
  "begin_pair (InDict kvs # st) (TValue (JStr k)) = Some (WantColon, InPair kvs k # st)"
| "begin_pair _ _ = None"

fun close_container :: "frame list \<Rightarrow> token \<Rightarrow> (expect \<times> frame list) option" where
  "close_container (InList xs # st) TRBracket = accept_value (JList xs) st"
| "close_container (InDict kvs # st) TRBrace = accept_value (JDict kvs) st"
| "close_container _ _ = None"

fun step :: "expect \<Rightarrow> frame list \<Rightarrow> token \<Rightarrow> (expect \<times> frame list) option" where
  "step WantValue st t = begin_value st t"
| "step WantValueOrClose st t = (if t = TRBracket then close_container st t else begin_value st t)"
| "step WantKeyOrClose st t = (if t = TRBrace then close_container st t else begin_pair st t)"
| "step WantKey st t = begin_pair st t"
| "step WantColon st t = (if t = TColon then Some (WantValue, st) else None)"
| "step AfterValue st t =
     (if t = TComma
      then (case st of
              InList xs # _ \<Rightarrow> Some (WantValue, st)
            | InDict kvs # _ \<Rightarrow> Some (WantKey, st)
            | _ \<Rightarrow> None)
      else close_container st t)"
| "step (Finished v) st t = None"

fun parse :: "expect \<Rightarrow> frame list \<Rightarrow> token list \<Rightarrow> json option" where
  "parse e st [] = (case e of Finished v \<Rightarrow> Some v | _ \<Rightarrow> None)"
| "parse e st (t # ts) =
     (case step e st t of
        None \<Rightarrow> None
      | Some (e', st') \<Rightarrow> parse e' st' ts)"

definition json_loads :: "pystr \<Rightarrow> exn + json" where
  "json_loads s =
     (case lex 0 s of
        None \<Rightarrow> Inl JSONDecodeError
      | Some ts \<Rightarrow>
          (case parse WantValue [] ts of
             None \<Rightarrow> Inl JSONDecodeError
           | Some v \<Rightarrow> Inr v))"

section \<open>Calls to the user interface and to the document writer\<close>

text \<open>
  An f-string is kept as its parts: the literal text and the interpolated values, each
  of which the interpreter formats with \<open>str\<close>. Formatting never raises.
\<close>

datatype piece = Lit pystr | Val json

type_synonym fstring = "piece list"





text \<open>
  The calls on the \<open>FPDF\<close> object, with the arguments that the source passes; every
  \<open>cell\<close> of the source has \<open>ln=True\<close>, and the last argument of \<open>Cell\<close> is its
  alignment. The document is the sequence of calls: what the writer makes of them
  (layout, page breaks) is not part of the model, except that \<open>multi_cell\<close> uses
  the string methods of its text and that the output is encoded in Latin-1.
\<close>

datatype pdf_call =
    SetAutoPageBreak bool nat
  | AddPage
  | SetFont pystr pystr nat
  | Cell nat nat fstring pystr
  | MultiCell nat nat fstring
  | Ln nat

text \<open>
  \<open>pdf.output(dest="S").encode("latin1")\<close>, line 87. The writer keeps the text of
  its cells in its pages and encodes the pages in Latin-1 when the document is put out,
  so that \<open>UnicodeEncodeError\<close> is raised when the text of a cell has a character
  above 255. The text of an interpolated string is the string itself. The text of a list
  or of a dictionary is its \<open>repr\<close>, which writes a character of a string inside it
  as it is when the character is printable, and as an escape in ASCII when it is not.
  Every other value has a text in ASCII. The code points above 255 that are not
  printable are listed as ranges.
\<close>

definition nonprintable_ranges :: "(nat \<times> nat) list" where
  "nonprintable_ranges =
     [(888, 889), (896, 899), (907, 907), (909, 909), (930, 930), (1328, 1328),
      (1367, 1368), (1419, 1420), (1424, 1424), (1480, 1487), (1515, 1518), (1525, 1541),
      (1564, 1564), (1757, 1757), (1806, 1807), (1867, 1868), (1970, 1983), (2043, 2044),
      (2094, 2095), (2111, 2111), (2140, 2141), (2143, 2143), (2155, 2159), (2191, 2199),
      (2274, 2274), (2436, 2436), (2445, 2446), (2449, 2450), (2473, 2473), (2481, 2481),
      (2483, 2485), (2490, 2491), (2501, 2502), (2505, 2506), (2511, 2518), (2520, 2523),
      (2526, 2526), (2532, 2533), (2559, 2560), (2564, 2564), (2571, 2574), (2577, 2578),
      (2601, 2601), (2609, 2609), (2612, 2612), (2615, 2615), (2618, 2619), (2621, 2621),
      (2627, 2630), (2633, 2634), (2638, 2640), (2642, 2648), (2653, 2653), (2655, 2661),
      (2679, 2688), (2692, 2692), (2702, 2702), (2706, 2706), (2729, 2729), (2737, 2737),
      (2740, 2740), (2746, 2747), (2758, 2758), (2762, 2762), (2766, 2767), (2769, 2783),
      (2788, 2789), (2802, 2808), (2816, 2816), (2820, 2820), (2829, 2830), (2833, 2834),
      (2857, 2857), (2865, 2865), (2868, 2868), (2874, 2875), (2885, 2886), (2889, 2890),
      (2894, 2900), (2904, 2907), (2910, 2910), (2916, 2917), (2936, 2945), (2948, 2948),
      (2955, 2957), (2961, 2961), (2966, 2968), (2971, 2971), (2973, 2973), (2976, 2978),
      (2981, 2983), (2987, 2989), (3002, 3005), (3011, 3013), (3017, 3017), (3022, 3023),
      (3025, 3030), (3032, 3045), (3067, 3071), (3085, 3085), (3089, 3089), (3113, 3113),
      (3130, 3131), (3141, 3141), (3145, 3145), (3150, 3156), (3159, 3159), (3163, 3164),
      (3166, 3167), (3172, 3173), (3184, 3190), (3213, 3213), (3217, 3217), (3241, 3241),
      (3252, 3252), (3258, 3259), (3269, 3269), (3273, 3273), (3278, 3284), (3287, 3292),
      (3295, 3295), (3300, 3301), (3312, 3312), (3315, 3327), (3341, 3341), (3345, 3345),
      (3397, 3397), (3401, 3401), (3408, 3411), (3428, 3429), (3456, 3456), (3460, 3460),
      (3479, 3481), (3506, 3506), (3516, 3516), (3518, 3519), (3527, 3529), (3531, 3534),
      (3541, 3541), (3543, 3543), (3552, 3557), (3568, 3569), (3573, 3584), (3643, 3646),
      (3676, 3712), (3715, 3715), (3717, 3717), (3723, 3723), (3748, 3748), (3750, 3750),
      (3774, 3775), (3781, 3781), (3783, 3783), (3790, 3791), (3802, 3803), (3808, 3839),
      (3912, 3912), (3949, 3952), (3992, 3992), (4029, 4029), (4045, 4045), (4059, 4095),
      (4294, 4294), (4296, 4300), (4302, 4303), (4681, 4681), (4686, 4687), (4695, 4695),
      (4697, 4697), (4702, 4703), (4745, 4745), (4750, 4751), (4785, 4785), (4790, 4791),
      (4799, 4799), (4801, 4801), (4806, 4807), (4823, 4823), (4881, 4881), (4886, 4887),
      (4955, 4956), (4989, 4991), (5018, 5023), (5110, 5111), (5118, 5119), (5760, 5760),
      (5789, 5791), (5881, 5887), (5910, 5918), (5943, 5951), (5972, 5983), (5997, 5997),
      (6001, 6001), (6004, 6015), (6110, 6111), (6122, 6127), (6138, 6143), (6158, 6158),
      (6170, 6175), (6265, 6271), (6315, 6319), (6390, 6399), (6431, 6431), (6444, 6447),
      (6460, 6463), (6465, 6467), (6510, 6511), (6517, 6527), (6572, 6575), (6602, 6607),
      (6619, 6621), (6684, 6685), (6751, 6751), (6781, 6782), (6794, 6799), (6810, 6815),
      (6830, 6831), (6863, 6911), (6989, 6991), (7039, 7039), (7156, 7163), (7224, 7226),
      (7242, 7244), (7305, 7311), (7355, 7356), (7368, 7375), (7419, 7423), (7958, 7959),
      (7966, 7967), (8006, 8007), (8014, 8015), (8024, 8024), (8026, 8026), (8028, 8028),
      (8030, 8030), (8062, 8063), (8117, 8117), (8133, 8133), (8148, 8149), (8156, 8156),
      (8176, 8177), (8181, 8181), (8191, 8207), (8232, 8239), (8287, 8303), (8306, 8307),
      (8335, 8335), (8349, 8351), (8385, 8399), (8433, 8447), (8588, 8591), (9255, 9279),
      (9291, 9311), (11124, 11125), (11158, 11158), (11508, 11512), (11558, 11558),
      (11560, 11564), (11566, 11567), (11624, 11630), (11633, 11646), (11671, 11679),
      (11687, 11687), (11695, 11695), (11703, 11703), (11711, 11711), (11719, 11719),
      (11727, 11727), (11735, 11735), (11743, 11743), (11870, 11903), (11930, 11930),
      (12020, 12031), (12246, 12271), (12284, 12288), (12352, 12352), (12439, 12440),
      (12544, 12548), (12592, 12592), (12687, 12687), (12772, 12783), (12831, 12831),
      (42125, 42127), (42183, 42191), (42540, 42559), (42744, 42751), (42955, 42959),
      (42962, 42962), (42964, 42964), (42970, 42993), (43053, 43055), (43066, 43071),
      (43128, 43135), (43206, 43213), (43226, 43231), (43348, 43358), (43389, 43391),
      (43470, 43470), (43482, 43485), (43519, 43519), (43575, 43583), (43598, 43599),
      (43610, 43611), (43715, 43738), (43767, 43776), (43783, 43784), (43791, 43792),
      (43799, 43807), (43815, 43815), (43823, 43823), (43884, 43887), (44014, 44015),
      (44026, 44031), (55204, 55215), (55239, 55242), (55292, 63743), (64110, 64111),
      (64218, 64255), (64263, 64274), (64280, 64284), (64311, 64311), (64317, 64317),
      (64319, 64319), (64322, 64322), (64325, 64325), (64451, 64466), (64912, 64913),
      (64968, 64974), (64976, 65007), (65050, 65055), (65107, 65107), (65127, 65127),
      (65132, 65135), (65141, 65141), (65277, 65280), (65471, 65473), (65480, 65481),
      (65488, 65489), (65496, 65497), (65501, 65503), (65511, 65511), (65519, 65531),
      (65534, 65535), (65548, 65548), (65575, 65575), (65595, 65595), (65598, 65598),
      (65614, 65615), (65630, 65663), (65787, 65791), (65795, 65798), (65844, 65846),
      (65935, 65935), (65949, 65951), (65953, 65999), (66046, 66175), (66205, 66207),
      (66257, 66271), (66300, 66303), (66340, 66348), (66379, 66383), (66427, 66431),
      (66462, 66462), (66500, 66503), (66518, 66559), (66718, 66719), (66730, 66735),
      (66772, 66775), (66812, 66815), (66856, 66863), (66916, 66926), (66939, 66939),
      (66955, 66955), (66963, 66963), (66966, 66966), (66978, 66978), (66994, 66994),
      (67002, 67002), (67005, 67071), (67383, 67391), (67414, 67423), (67432, 67455),
      (67462, 67462), (67505, 67505), (67515, 67583), (67590, 67591), (67593, 67593),
      (67638, 67638), (67641, 67643), (67645, 67646), (67670, 67670), (67743, 67750),
      (67760, 67807), (67827, 67827), (67830, 67834), (67868, 67870), (67898, 67902),
      (67904, 67967), (68024, 68027), (68048, 68049), (68100, 68100), (68103, 68107),
      (68116, 68116), (68120, 68120), (68150, 68151), (68155, 68158), (68169, 68175),
      (68185, 68191), (68256, 68287), (68327, 68330), (68343, 68351), (68406, 68408),
      (68438, 68439), (68467, 68471), (68498, 68504), (68509, 68520), (68528, 68607),
      (68681, 68735), (68787, 68799), (68851, 68857), (68904, 68911), (68922, 69215),
      (69247, 69247), (69290, 69290), (69294, 69295), (69298, 69375), (69416, 69423),
      (69466, 69487), (69514, 69551), (69580, 69599), (69623, 69631), (69710, 69713),
      (69750, 69758), (69821, 69821), (69827, 69839), (69865, 69871), (69882, 69887),
      (69941, 69941), (69960, 69967), (70007, 70015), (70112, 70112), (70133, 70143),
      (70162, 70162), (70207, 70271), (70279, 70279), (70281, 70281), (70286, 70286),
      (70302, 70302), (70314, 70319), (70379, 70383), (70394, 70399), (70404, 70404),
      (70413, 70414), (70417, 70418), (70441, 70441), (70449, 70449), (70452, 70452),
      (70458, 70458), (70469, 70470), (70473, 70474), (70478, 70479), (70481, 70486),
      (70488, 70492), (70500, 70501), (70509, 70511), (70517, 70655), (70748, 70748),
      (70754, 70783), (70856, 70863), (70874, 71039), (71094, 71095), (71134, 71167),
      (71237, 71247), (71258, 71263), (71277, 71295), (71354, 71359), (71370, 71423),
      (71451, 71452), (71468, 71471), (71495, 71679), (71740, 71839), (71923, 71934),
      (71943, 71944), (71946, 71947), (71956, 71956), (71959, 71959), (71990, 71990),
      (71993, 71994), (72007, 72015), (72026, 72095), (72104, 72105), (72152, 72153),
      (72165, 72191), (72264, 72271), (72355, 72367), (72441, 72703), (72713, 72713),
      (72759, 72759), (72774, 72783), (72813, 72815), (72848, 72849), (72872, 72872),
      (72887, 72959), (72967, 72967), (72970, 72970), (73015, 73017), (73019, 73019),
      (73022, 73022), (73032, 73039), (73050, 73055), (73062, 73062), (73065, 73065),
      (73103, 73103), (73106, 73106), (73113, 73119), (73130, 73439), (73465, 73647),
      (73649, 73663), (73714, 73726), (74650, 74751), (74863, 74863), (74869, 74879),
      (75076, 77711), (77811, 77823), (78895, 82943), (83527, 92159), (92729, 92735),
      (92767, 92767), (92778, 92781), (92863, 92863), (92874, 92879), (92910, 92911),
      (92918, 92927), (92998, 93007), (93018, 93018), (93026, 93026), (93048, 93052),
      (93072, 93759), (93851, 93951), (94027, 94030), (94088, 94094), (94112, 94175),
      (94181, 94191), (94194, 94207), (100344, 100351), (101590, 101631), (101641, 110575),
      (110580, 110580), (110588, 110588), (110591, 110591), (110883, 110927),
      (110931, 110947), (110952, 110959), (111356, 113663), (113771, 113775),
      (113789, 113791), (113801, 113807), (113818, 113819), (113824, 118527),
      (118574, 118575), (118599, 118607), (118724, 118783), (119030, 119039),
      (119079, 119080), (119155, 119162), (119275, 119295), (119366, 119519),
      (119540, 119551), (119639, 119647), (119673, 119807), (119893, 119893),
      (119965, 119965), (119968, 119969), (119971, 119972), (119975, 119976),
      (119981, 119981), (119994, 119994), (119996, 119996), (120004, 120004),
      (120070, 120070), (120075, 120076), (120085, 120085), (120093, 120093),
      (120122, 120122), (120127, 120127), (120133, 120133), (120135, 120137),
      (120145, 120145), (120486, 120487), (120780, 120781), (121484, 121498),
      (121504, 121504), (121520, 122623), (122655, 122879), (122887, 122887),
      (122905, 122906), (122914, 122914), (122917, 122917), (122923, 123135),
      (123181, 123183), (123198, 123199), (123210, 123213), (123216, 123535),
      (123567, 123583), (123642, 123646), (123648, 124895), (124903, 124903),
      (124908, 124908), (124911, 124911), (124927, 124927), (125125, 125126),
      (125143, 125183), (125260, 125263), (125274, 125277), (125280, 126064),
      (126133, 126208), (126270, 126463), (126468, 126468), (126496, 126496),
      (126499, 126499), (126501, 126502), (126504, 126504), (126515, 126515),
      (126520, 126520), (126522, 126522), (126524, 126529), (126531, 126534),
      (126536, 126536), (126538, 126538), (126540, 126540), (126544, 126544),
      (126547, 126547), (126549, 126550), (126552, 126552), (126554, 126554),
      (126556, 126556), (126558, 126558), (126560, 126560), (126563, 126563),
      (126565, 126566), (126571, 126571), (126579, 126579), (126584, 126584),
      (126589, 126589), (126591, 126591), (126602, 126602), (126620, 126624),
      (126628, 126628), (126634, 126634), (126652, 126703), (126706, 126975),
      (127020, 127023), (127124, 127135), (127151, 127152), (127168, 127168),
      (127184, 127184), (127222, 127231), (127406, 127461), (127491, 127503),
      (127548, 127551), (127561, 127567), (127570, 127583), (127590, 127743),
      (128728, 128732), (128749, 128751), (128765, 128767), (128884, 128895),
      (128985, 128991), (129004, 129007), (129009, 129023), (129036, 129039),
      (129096, 129103), (129114, 129119), (129160, 129167), (129198, 129199),
      (129202, 129279), (129620, 129631), (129646, 129647), (129653, 129655),
      (129661, 129663), (129671, 129679), (129709, 129711), (129723, 129727),
      (129734, 129743), (129754, 129759), (129768, 129775), (129783, 129791),
      (129939, 129939), (129995, 130031), (130042, 131071), (173792, 173823),
      (177977, 177983), (178206, 178207), (183970, 183983), (191457, 194559),
      (195102, 196607), (201547, 917759), (918000, 1114111)]"

definition printable :: "nat \<Rightarrow> bool" where
  "printable c \<longleftrightarrow> \<not> list_ex (\<lambda>r. fst r \<le> c \<and> c \<le> snd r) nonprintable_ranges"

definition latin1 :: "pystr \<Rightarrow> bool" where
  "latin1 s \<longleftrightarrow> list_all (\<lambda>c. c < 256) s"

definition repr_latin1_str :: "pystr \<Rightarrow> bool" where
  "repr_latin1_str s \<longleftrightarrow> list_all (\<lambda>c. c < 256 \<or> \<not> printable c) s"

fun repr_latin1 :: "json \<Rightarrow> bool" where
  "repr_latin1 (JStr s) = repr_latin1_str s"
| "repr_latin1 (JList xs) = list_all repr_latin1 xs"
| "repr_latin1 (JDict kvs) =
     list_all (\<lambda>kv. repr_latin1_str (fst kv) \<and> repr_latin1 (snd kv)) kvs"
| "repr_latin1 _ = True"

fun str_latin1 :: "json \<Rightarrow> bool" where
  "str_latin1 (JStr s) = latin1 s"
| "str_latin1 v = repr_latin1 v"

fun piece_latin1 :: "piece \<Rightarrow> bool" where
  "piece_latin1 (Lit s) = latin1 s"
| "piece_latin1 (Val v) = str_latin1 v"

fun call_latin1 :: "pdf_call \<Rightarrow> bool" where
  "call_latin1 (Cell w h txt a) = list_all piece_latin1 txt"
| "call_latin1 (MultiCell w h txt) = list_all piece_latin1 txt"
| "call_latin1 _ = True"

definition output_latin1 :: "pdf_call list \<Rightarrow> exn + unit" where
  "output_latin1 doc =
     (if list_all call_latin1 doc then Inr () else Inl UnicodeEncodeError)"

datatype st_call =
    StTitle pystr
  | StTextInput pystr
  | StWrite fstring
  | StWriteObj json
  | StSubheader fstring
  | StError pystr
  | StBarChart pyfloat pyfloat
  | StDownloadButton pystr "pdf_call list" fstring pystr

text \<open>
  A run of statements: the calls made, in order, and either the exception that ended
  the run or its result.
\<close>

type_synonym ('c, 'a) run = "'c list \<times> (exn + 'a)"

definition calls :: "'c list \<Rightarrow> ('c, unit) run" where
  "calls cs = (cs, Inr ())"

definition eval :: "exn + 'a \<Rightarrow> ('c, 'a) run" where
  "eval r = ([], r)"

definition bind :: "('c, 'a) run \<Rightarrow> ('a \<Rightarrow> ('c, 'b) run) \<Rightarrow> ('c, 'b) run" where
  "bind m f =
     (case m of
        (out, Inl e) \<Rightarrow> (out, Inl e)
      | (out, Inr a) \<Rightarrow> (case f a of (out', r) \<Rightarrow> (out @ out', r)))"

fun for_each :: "('a \<Rightarrow> ('c, unit) run) \<Rightarrow> 'a list \<Rightarrow> ('c, unit) run" where
  "for_each body [] = calls []"
| "for_each body (x # xs) = bind (body x) (\<lambda>_. for_each body xs)"

text \<open>\<open>try: m except ValueError: handler\<close>\<close>

definition try_except_ValueError :: "('c, unit) run \<Rightarrow> ('c, unit) run \<Rightarrow> ('c, unit) run" where
  "try_except_ValueError m handler =
     (case m of
        (out, Inl e) \<Rightarrow> if is_ValueError e then bind (calls out) (\<lambda>_. handler) else (out, Inl e)
      | (out, Inr a) \<Rightarrow> (out, Inr a))"

section \<open>The extractor\<close>

definition decode_error_message :: pystr where
  "decode_error_message = ascii ''Error decoding JSON. Please check API response.''"

text \<open>
  \<open>get_disease_info\<close>. The call to the text-generation service is the parameter
  \<open>service\<close>, from the disease name to the content of the first choice.
\<close>

definition get_disease_info :: "(pystr \<Rightarrow> pystr) \<Rightarrow> pystr \<Rightarrow> (st_call, json) run" where
  "get_disease_info service disease_name =
     (let content = service disease_name
      in case json_loads (json_text content) of
           Inr v \<Rightarrow> ([], Inr v)
         | Inl e \<Rightarrow> if e = JSONDecodeError
                    then ([StError decode_error_message], Inr JNull)
                    else ([], Inl e))"

section \<open>The document\<close>

definition pdf_title :: "json \<Rightarrow> (pdf_call, unit) run" where
  "pdf_title info =
     bind (calls [SetAutoPageBreak True 15, AddPage, SetFont (ascii ''Arial'') (ascii ''B'') 16])
       (\<lambda>_.
     bind (eval (py_get info (ascii ''name'') (JStr (ascii ''Disease Info'')))) (\<lambda>name.
     calls [Cell 200 10 [Val name] (ascii ''C''), Ln 10]))"

definition pdf_statistics :: "json \<Rightarrow> (pdf_call, unit) run" where
  "pdf_statistics info =
     bind (calls [SetFont (ascii ''Arial'') (ascii ''B'') 12,
                  Cell 200 10 [Lit (ascii ''Statistics'')] [],
                  SetFont (ascii ''Arial'') [] 12]) (\<lambda>_.
     bind (eval (py_get info (ascii ''statistics'') (JDict []))) (\<lambda>stats.
     bind (eval (py_get stats (ascii ''total_cases'') (JStr (ascii ''N/A'')))) (\<lambda>total_cases.
     bind (eval (py_get stats (ascii ''recovery_rate'') (JStr (ascii ''N/A'')))) (\<lambda>recovery_rate.
     bind (eval (py_get stats (ascii ''mortality_rate'') (JStr (ascii ''N/A'')))) (\<lambda>mortality_rate.
     calls [MultiCell 0 10
              [Lit (ascii ''Total Cases: ''), Val total_cases,
               Lit (10 # ascii ''Recovery Rate: ''), Val recovery_rate,
               Lit (10 # ascii ''Mortality Rate: ''), Val mortality_rate],
            Ln 5])))))"

definition pdf_recovery_option :: "pystr \<times> json \<Rightarrow> (pdf_call, unit) run" where
  "pdf_recovery_option item =
     (case item of (option, description) \<Rightarrow>
        bind (calls [Cell 0 8 [Lit (ascii ''- ''), Val (JStr option)] []]) (\<lambda>_.
        bind (eval (if is_JStr description then Inr () else Inl AttributeError)) (\<lambda>_.
        calls [MultiCell 0 8 [Val description], Ln 2])))"

definition pdf_recovery_options :: "json \<Rightarrow> (pdf_call, unit) run" where
  "pdf_recovery_options info =
     bind (calls [SetFont (ascii ''Arial'') (ascii ''B'') 12,
                  Cell 200 10 [Lit (ascii ''Recovery Options'')] [],
                  SetFont (ascii ''Arial'') [] 12]) (\<lambda>_.
     bind (eval (py_get info (ascii ''recovery_options'') (JDict []))) (\<lambda>options.
     bind (eval (py_items options)) (\<lambda>items.
     for_each pdf_recovery_option items)))"

definition pdf_medication_entry :: "nat \<times> json \<Rightarrow> (pdf_call, unit) run" where
  "pdf_medication_entry entry =
     (case entry of (idx, med) \<Rightarrow>
        bind (eval (py_get med (ascii ''name'') (JStr (ascii ''Unknown'')))) (\<lambda>name.
        bind (calls [Cell 0 8 [Val (JInt (int idx)), Lit (ascii ''. ''), Val name] []]) (\<lambda>_.
        bind (eval (py_get med (ascii ''dosage'') (JStr (ascii ''N/A'')))) (\<lambda>dosage.
        bind (eval (py_get med (ascii ''side_effects'') (JList []))) (\<lambda>side_effects.
        bind (eval (py_join (ascii '', '') side_effects)) (\<lambda>joined.
        calls [MultiCell 0 8
                 [Lit (ascii ''Dosage: ''), Val dosage,
                  Lit (10 # ascii ''Side Effects: ''), Val (JStr joined)],
               Ln 2]))))))"

definition pdf_medication :: "json \<Rightarrow> (pdf_call, unit) run" where
  "pdf_medication info =
     bind (calls [SetFont (ascii ''Arial'') (ascii ''B'') 12,
                  Cell 200 10 [Lit (ascii ''Medication'')] [],
                  SetFont (ascii ''Arial'') [] 12]) (\<lambda>_.
     bind (eval (py_get info (ascii ''medication'') (JList []))) (\<lambda>medication.
     bind (eval (py_iter medication)) (\<lambda>meds.
     for_each pdf_medication_entry (enumerate 1 meds))))"

text \<open>Lines 49 to 85 of \<open>generate_pdf\<close>: the calls that fill the pages.\<close>

definition pdf_pages :: "json \<Rightarrow> (pdf_call, unit) run" where
  "pdf_pages info =
     bind (pdf_title info) (\<lambda>_.
     bind (pdf_statistics info) (\<lambda>_.
     bind (pdf_recovery_options info) (\<lambda>_.
     pdf_medication info)))"

text \<open>
  \<open>generate_pdf\<close>: the calls made on the writer, and at line 87 the output of the
  document and its encoding. The bytes returned are the writer's serialisation of the
  calls.
\<close>

definition generate_pdf :: "json \<Rightarrow> (pdf_call, unit) run" where
  "generate_pdf info =
     (case pdf_pages info of
        (doc, Inl e) \<Rightarrow> (doc, Inl e)
      | (doc, Inr u) \<Rightarrow> (doc, output_latin1 doc))"

section \<open>The interactive view\<close>

definition invalid_percentage_message :: pystr where
  "invalid_percentage_message = ascii ''Invalid percentage values in statistics.''"

definition rate :: "json \<Rightarrow> pystr \<Rightarrow> exn + pyfloat" where
  "rate stats key =
     (case py_get stats key (JStr (ascii ''0%'')) of
        Inl e \<Rightarrow> Inl e
      | Inr v \<Rightarrow> (case py_strip_chars v (ascii ''%'') of
                   Inl e \<Rightarrow> Inl e
                 | Inr t \<Rightarrow> py_float t))"

definition display_statistics :: "json \<Rightarrow> (st_call, unit) run" where
  "display_statistics stats =
     try_except_ValueError
       (bind (eval (rate stats (ascii ''recovery_rate''))) (\<lambda>recovery_rate.
        bind (eval (rate stats (ascii ''mortality_rate''))) (\<lambda>mortality_rate.
        calls [StBarChart recovery_rate mortality_rate])))
       (calls [StError invalid_percentage_message])"

definition display_recovery_option :: "pystr \<times> json \<Rightarrow> (st_call, unit) run" where
  "display_recovery_option item =
     (case item of (option, description) \<Rightarrow>
        calls [StSubheader [Val (JStr option)], StWriteObj description])"

definition display_recovery_options :: "json \<Rightarrow> (st_call, unit) run" where
  "display_recovery_options info =
     bind (calls [StWrite [Lit (ascii ''## Recovery Options'')]]) (\<lambda>_.
     bind (eval (py_get info (ascii ''recovery_options'') (JDict []))) (\<lambda>options.
     bind (eval (py_items options)) (\<lambda>items.
     for_each display_recovery_option items)))"

definition display_medication_entry :: "nat \<times> json \<Rightarrow> (st_call, unit) run" where
  "display_medication_entry entry =
     (case entry of (idx, med) \<Rightarrow>
        bind (eval (py_get med (ascii ''name'') (JStr (ascii ''Unknown'')))) (\<lambda>name.
        bind (calls [StSubheader [Val (JInt (int idx)), Lit (ascii ''. ''), Val name]]) (\<lambda>_.
        bind (eval (py_get med (ascii ''dosage'') (JStr (ascii ''N/A'')))) (\<lambda>dosage.
        bind (calls [StWrite [Lit (ascii ''**Dosage:** ''), Val dosage]]) (\<lambda>_.
        bind (eval (py_get med (ascii ''side_effects'') (JList []))) (\<lambda>side_effects.
        bind (eval (py_join (ascii '', '') side_effects)) (\<lambda>joined.
        calls [StWrite [Lit (ascii ''**Side Effects:** ''), Val (JStr joined)]])))))))"

definition display_medication :: "json \<Rightarrow> (st_call, unit) run" where
  "display_medication info =
     bind (calls [StWrite [Lit (ascii ''## Medication'')]]) (\<lambda>_.
     bind (eval (py_get info (ascii ''medication'') (JList []))) (\<lambda>medication.
     bind (eval (py_iter medication)) (\<lambda>meds.
     for_each display_medication_entry (enumerate 1 meds))))"

definition display_download :: "json \<Rightarrow> (st_call, unit) run" where
  "display_download info =
     (case generate_pdf info of
        (doc, Inl e) \<Rightarrow> ([], Inl e)
      | (doc, Inr _) \<Rightarrow>
          bind (eval (py_get info (ascii ''name'') (JStr (ascii ''disease_info'')))) (\<lambda>name.
          calls [StDownloadButton (ascii ''Download PDF'') doc
                   [Val name, Lit (ascii ''.pdf'')] (ascii ''application/pdf'')]))"

text \<open>What \<open>display_disease_info\<close> does after the statistics: lines 110 to 130.\<close>

definition display_remaining :: "json \<Rightarrow> (st_call, unit) run" where
  "display_remaining info =
     bind (display_recovery_options info) (\<lambda>_.
     bind (display_medication info) (\<lambda>_.
     display_download info))"

definition display_disease_info :: "json \<Rightarrow> (st_call, unit) run" where
  "display_disease_info info =
     (if \<not> truthy info then calls []
      else
        bind (eval (py_get info (ascii ''name'') (JStr (ascii ''Unknown Disease'')))) (\<lambda>name.
        bind (calls [StWrite [Lit (ascii ''## Statistics for ''), Val name]]) (\<lambda>_.
        bind (eval (py_get info (ascii ''statistics'') (JDict []))) (\<lambda>stats.
        bind (display_statistics stats) (\<lambda>_.
        display_remaining info)))))"

section \<open>The script\<close>

text \<open>
  Lines 133 to 137, for the text that the input field holds.
\<close>

definition app :: "(pystr \<Rightarrow> pystr) \<Rightarrow> pystr \<Rightarrow> (st_call, unit) run" where
  "app service disease_name =
     bind (calls [StTitle (ascii ''Disease Information Dashboard''),
                  StTextInput (ascii ''Enter the name of the disease:'')]) (\<lambda>_.
     if disease_name \<noteq> []
     then bind (get_disease_info service disease_name) display_disease_info
     else calls [])"

section \<open>The specification's words\<close>

text \<open>
  The specification's words for the payload of a fenced response: the text strictly
  between the end of the first fence marker and the start of the last one.
\<close>

definition between_fences :: "pystr \<Rightarrow> pystr" where
  "between_fences content =
     (let occ = occurrences fence content;
          first_end = hd occ + length fence;
          last_start = last occ
      in take (last_start - first_end) (drop first_end content))"

text \<open>
  The specification's words for the shape of a DiseaseRecord after the defaulting of
  missing fields: an object that has the four fields of the data model.
\<close>

definition disease_record_shape :: "json \<Rightarrow> bool" where
  "disease_record_shape v =
     (case v of
        JDict kvs \<Rightarrow>
          list_all (\<lambda>k. map_of kvs (ascii k) \<noteq> None)
            [''name'', ''statistics'', ''recovery_options'', ''medication'']
      | _ \<Rightarrow> False)"

text \<open>
  The data model of the specification, as far as the renderers depend on it: a record
  is an object; its statistics, when present, are an object whose rates, when present,
  are strings; its recovery options, when present, are an object of strings; its
  medication, when present, is a list of objects whose side effects, when present, are a
  list of strings.
\<close>

fun entry_ok :: "json \<Rightarrow> bool" where
  "entry_ok (JDict m) =
     (case map_of m (ascii ''side_effects'') of
        None \<Rightarrow> True
      | Some (JList xs) \<Rightarrow> list_all is_JStr xs
      | Some _ \<Rightarrow> False)"
| "entry_ok _ = False"

definition rate_ok :: "json option \<Rightarrow> bool" where
  "rate_ok r = (case r of None \<Rightarrow> True | Some v \<Rightarrow> is_JStr v)"

definition statistics_ok :: "json option \<Rightarrow> bool" where
  "statistics_ok s =
     (case s of
        None \<Rightarrow> True
      | Some (JDict st) \<Rightarrow>
          rate_ok (map_of st (ascii ''recovery_rate'')) \<and>
          rate_ok (map_of st (ascii ''mortality_rate''))
      | Some _ \<Rightarrow> False)"

definition recovery_options_ok :: "json option \<Rightarrow> bool" where
  "recovery_options_ok r =
     (case r of
        None \<Rightarrow> True
      | Some (JDict ro) \<Rightarrow> list_all (\<lambda>item. is_JStr (snd item)) ro
      | Some _ \<Rightarrow> False)"

definition medication_ok :: "json option \<Rightarrow> bool" where
  "medication_ok m =
     (case m of
        None \<Rightarrow> True
      | Some (JList meds) \<Rightarrow> list_all entry_ok meds
      | Some _ \<Rightarrow> False)"

fun well_typed :: "json \<Rightarrow> bool" where
  "well_typed (JDict kvs) =
     (statistics_ok (map_of kvs (ascii ''statistics'')) \<and>
      recovery_options_ok (map_of kvs (ascii ''recovery_options'')) \<and>
      medication_ok (map_of kvs (ascii ''medication'')))"
| "well_typed _ = False"

text \<open>
  The specification's words for a medication entry: its number and name, its dosage,
  and its side effects joined with a comma; a missing name is \<open>Unknown\<close>, a missing
  dosage \<open>N/A\<close>, and missing or empty side effects are the empty text.
\<close>

definition field :: "json \<Rightarrow> string \<Rightarrow> string \<Rightarrow> json" where
  "field obj key placeholder =
     (case obj of
        JDict m \<Rightarrow> (case map_of m (ascii key) of
                     None \<Rightarrow> JStr (ascii placeholder)
                   | Some v \<Rightarrow> v)
      | _ \<Rightarrow> JStr (ascii placeholder))"

definition side_effects_text :: "json \<Rightarrow> pystr" where
  "side_effects_text med =
     (case med of
        JDict m \<Rightarrow> (case map_of m (ascii ''side_effects'') of
                     Some (JList xs) \<Rightarrow> join_strs (ascii '', '') (map str_of xs)
                   | _ \<Rightarrow> [])
      | _ \<Rightarrow> [])"

definition entry_heading :: "nat \<times> json \<Rightarrow> fstring" where
  "entry_heading entry =
     [Val (JInt (int (fst entry))), Lit (ascii ''. ''),
      Val (field (snd entry) ''name'' ''Unknown'')]"

definition view_entry :: "nat \<times> json \<Rightarrow> st_call list" where
  "view_entry entry =
     [StSubheader (entry_heading entry),
      StWrite [Lit (ascii ''**Dosage:** ''), Val (field (snd entry) ''dosage'' ''N/A'')],
      StWrite [Lit (ascii ''**Side Effects:** ''), Val (JStr (side_effects_text (snd entry)))]]"

definition document_entry :: "nat \<times> json \<Rightarrow> pdf_call list" where
  "document_entry entry =
     [Cell 0 8 (entry_heading entry) [],
      MultiCell 0 8
        [Lit (ascii ''Dosage: ''), Val (field (snd entry) ''dosage'' ''N/A''),
         Lit (10 # ascii ''Side Effects: ''), Val (JStr (side_effects_text (snd entry)))],
      Ln 2]"

text \<open>
  The content of a rendering, for the comparison of the two renderers: the values that
  its calls show, in order, without the literal text around them.
\<close>

fun values_of :: "fstring \<Rightarrow> json list" where
  "values_of [] = []"
| "values_of (Lit s # ps) = values_of ps"
| "values_of (Val v # ps) = v # values_of ps"

fun st_content :: "st_call \<Rightarrow> json list" where
  "st_content (StWrite f) = values_of f"
| "st_content (StWriteObj v) = [v]"
| "st_content (StSubheader f) = values_of f"
| "st_content (StBarChart a b) = [JFloat a, JFloat b]"
| "st_content _ = []"

fun pdf_content :: "pdf_call \<Rightarrow> json list" where
  "pdf_content (Cell w h f a) = values_of f"
| "pdf_content (MultiCell w h f) = values_of f"
| "pdf_content _ = []"

definition view_content :: "(st_call, unit) run \<Rightarrow> json list" where
  "view_content r = concat (map st_content (fst r))"

definition document_content :: "(pdf_call, unit) run \<Rightarrow> json list" where
  "document_content r = concat (map pdf_content (fst r))"

text \<open>A medication sequence of two entries, the second one without a dosage.\<close>

definition example_medication :: json where
  "example_medication =
     JList [JDict [(ascii ''name'', JStr (ascii ''Aspirin'')),
                   (ascii ''side_effects'', JList [JStr (ascii ''nausea''), JStr (ascii ''rash'')]),
                   (ascii ''dosage'', JStr (ascii ''1 daily''))],
            JDict [(ascii ''name'', JStr (ascii ''Zinc'')),
                   (ascii ''side_effects'', JList [])]]"

text \<open>
  The specification's range for a rate that is charted, and the stripping of percent
  signs from both ends of a rate.
\<close>

definition in_percent_range :: "pyfloat \<Rightarrow> bool" where
  "in_percent_range f = (case f of Fl r \<Rightarrow> 0 \<le> r \<and> r \<le> 100 | _ \<Rightarrow> False)"

definition strip_percent :: "pystr \<Rightarrow> pystr" where
  "strip_percent s = strip_where (\<lambda>c. c = 37) s"

text \<open>Statistics used as examples.\<close>

definition statistics_70_5 :: json where
  "statistics_70_5 =
     JDict [(ascii ''total_cases'', JInt 1000),
            (ascii ''recovery_rate'', JStr (ascii ''70%'')),
            (ascii ''mortality_rate'', JStr (ascii ''5%''))]"

definition statistics_na :: json where
  "statistics_na =
     JDict [(ascii ''recovery_rate'', JStr (ascii ''N/A'')),
            (ascii ''mortality_rate'', JStr (ascii ''5%''))]"

definition statistics_150 :: json where
  "statistics_150 =
     JDict [(ascii ''recovery_rate'', JStr (ascii ''150%'')),
            (ascii ''mortality_rate'', JStr (ascii ''5%''))]"

text \<open>A complete record used as an example.\<close>

definition example_record :: json where
  "example_record =
     JDict [(ascii ''name'', JStr (ascii ''Flu'')),
            (ascii ''statistics'', statistics_70_5),
            (ascii ''recovery_options'', JDict [(ascii ''Rest'', JStr (ascii ''Sleep well''))]),
            (ascii ''medication'', example_medication)]"

text \<open>
  What the renderers show for a non-empty record that has none of the four fields of the
  data model: every absent field is rendered as the placeholder of its lookup, and the
  absent rates are charted as zeros.
\<close>

definition schema_fields :: "string list" where
  "schema_fields = [''name'', ''statistics'', ''recovery_options'', ''medication'']"

definition placeholder_document :: "pdf_call list" where
  "placeholder_document =
     [SetAutoPageBreak True 15, AddPage, SetFont (ascii ''Arial'') (ascii ''B'') 16,
      Cell 200 10 [Val (JStr (ascii ''Disease Info''))] (ascii ''C''), Ln 10,
      SetFont (ascii ''Arial'') (ascii ''B'') 12,
      Cell 200 10 [Lit (ascii ''Statistics'')] [],
      SetFont (ascii ''Arial'') [] 12,
      MultiCell 0 10
        [Lit (ascii ''Total Cases: ''), Val (JStr (ascii ''N/A'')),
         Lit (10 # ascii ''Recovery Rate: ''), Val (JStr (ascii ''N/A'')),
         Lit (10 # ascii ''Mortality Rate: ''), Val (JStr (ascii ''N/A''))],
      Ln 5,
      SetFont (ascii ''Arial'') (ascii ''B'') 12,
      Cell 200 10 [Lit (ascii ''Recovery Options'')] [],
      SetFont (ascii ''Arial'') [] 12,
      SetFont (ascii ''Arial'') (ascii ''B'') 12,
      Cell 200 10 [Lit (ascii ''Medication'')] [],
      SetFont (ascii ''Arial'') [] 12]"

definition placeholder_view :: "st_call list" where
  "placeholder_view =
     [StWrite [Lit (ascii ''## Statistics for ''), Val (JStr (ascii ''Unknown Disease''))],
      StBarChart (Fl 0) (Fl 0),
      StWrite [Lit (ascii ''## Recovery Options'')],
      StWrite [Lit (ascii ''## Medication'')],
      StDownloadButton (ascii ''Download PDF'') placeholder_document
        [Val (JStr (ascii ''disease_info'')), Lit (ascii ''.pdf'')]
        (ascii ''application/pdf'')]"






text \<open>
  The text of a record is within Latin-1: every string in it, the keys included, has
  its characters below 256.
\<close>

fun latin1_text :: "json \<Rightarrow> bool" where
  "latin1_text (JStr s) = latin1 s"
| "latin1_text (JList xs) = list_all latin1_text xs"
| "latin1_text (JDict kvs) = list_all (\<lambda>kv. latin1 (fst kv) \<and> latin1_text (snd kv)) kvs"
| "latin1_text _ = True"

section \<open>Properties of the extractor\<close>

lemma length_fence: "length fence = 3"
  by (simp add: fence_def ascii_def)

lemma occurrences_bound:
  assumes "i \<in> set (occurrences sub s)"
  shows "i + length sub \<le> length s"
proof -
  from assms have "i \<le> length s" and "prefix sub (drop i s)"
    unfolding occurrences_def set_filter by (simp_all del: upt_Suc)
  from this(2) have "length sub \<le> length s - i"
    using prefix_length_le by fastforce
  with \<open>i \<le> length s\<close> show ?thesis by simp
qed

lemma slice_between:
  assumes "occurrences fence content = f # r"
  shows "py_slice content (int f + 3) (int (last (f # r))) = between_fences content"
proof -
  have "f \<in> set (occurrences fence content)" using assms by simp
  then have f: "f + 3 \<le> length content"
    using occurrences_bound length_fence by fastforce
  have "last (f # r) \<in> set (occurrences fence content)"
    using assms last_in_set[of "f # r"] by simp
  then have l: "last (f # r) \<le> length content"
    using occurrences_bound by fastforce
  have "nat (int f + 3) = f + 3" by simp
  with f l show ?thesis
    by (simp add: py_slice_def slice_bound_def between_fences_def assms length_fence Let_def min_def)
qed

lemma json_text_eq:
  "json_text content =
     (if occurrences fence content \<noteq> [] \<and> 0 < last (occurrences fence content)
      then py_strip (between_fences content)
      else content)"
proof (cases "occurrences fence content")
  case Nil
  then show ?thesis by (simp add: json_text_def py_find_def py_rfind_def)
next
  case (Cons f r)
  then show ?thesis
    using slice_between[OF Cons]
    by (simp add: json_text_def py_find_def py_rfind_def Let_def)
qed

text \<open>
  Claim C1, as amended. The payload handed to the decoder is the stripped text between
  the end of the first fence and the start of the last fence whenever the response has
  a fence and its last fence starts behind index 0. In every other case (no fence at
  all, or a single fence that opens the response) the payload is the whole response.
\<close>

theorem fence_span:
  "json_text content =
     (if occurrences fence content \<noteq> [] \<and> 0 < last (occurrences fence content)
      then py_strip (between_fences content)
      else content)"
  by (rule json_text_eq)

text \<open>
  Two fenced blocks give the span from the first opening fence to the last closing
  fence; a response without a fence, and one whose only fence opens it, are taken
  whole.
\<close>

theorem fence_span_witness:
  "json_text (ascii ''a``` {} ```[]```'') = ascii ''{} ```[]'' \<and>
   json_text (ascii ''{}'') = ascii ''{}'' \<and>
   json_text (ascii ''```{}'') = ascii ''```{}''"
proof -
  have 1: "py_strip (between_fences (ascii ''a``` {} ```[]```'')) = ascii ''{} ```[]''"
    "occurrences fence (ascii ''a``` {} ```[]```'') = [1, 8, 13]"
    by code_simp+
  have 2: "occurrences fence (ascii ''{}'') = []" by code_simp
  have 3: "occurrences fence (ascii ''```{}'') = [0]" by code_simp
  show ?thesis
    using fence_span[of "ascii ''a``` {} ```[]```''"]
      fence_span[of "ascii ''{}''"] fence_span[of "ascii ''```{}''"]
    by (simp add: 1 2 3)
qed

text \<open>
  The claim as the specification states it fails on a response that opens with its only
  fence: there is a fence, and the payload is not the text between the markers.
\<close>

theorem fence_span_counterexample:
  "occurrences fence (ascii ''```{}'') \<noteq> [] \<and>
   json_text (ascii ''```{}'') \<noteq> py_strip (between_fences (ascii ''```{}''))"
  by code_simp

lemma json_loads_empty: "json_loads [] = Inl JSONDecodeError"
  by (simp add: json_loads_def)

lemma json_loads_error: "json_loads s = Inl e \<Longrightarrow> e = JSONDecodeError"
  by (auto simp: json_loads_def split: option.splits)

lemma get_disease_info_eq:
  "get_disease_info service disease_name =
     (case json_loads (json_text (service disease_name)) of
        Inr v \<Rightarrow> ([], Inr v)
      | Inl e \<Rightarrow> ([StError decode_error_message], Inr JNull))"
  by (auto simp: get_disease_info_def Let_def split: sum.splits dest: json_loads_error)

lemma display_falsy: "\<not> truthy info \<Longrightarrow> display_disease_info info = ([], Inr ())"
  by (simp add: display_disease_info_def calls_def)















text \<open>
  Claim C6, as amended. When the payload decodes, \<open>get_disease_info\<close> returns the
  decoded value itself, whatever its shape, and shows nothing; it shows a message exactly
  when the decoder fails, so that an incomplete object is never a failure.
\<close>

theorem decoded_value_returned:
  "(\<forall>v. json_loads (json_text (service disease_name)) = Inr v \<longrightarrow>
        get_disease_info service disease_name = ([], Inr v)) \<and>
   (fst (get_disease_info service disease_name) \<noteq> [] \<longleftrightarrow>
      isl (json_loads (json_text (service disease_name))))"
  by (simp add: get_disease_info_eq split: sum.splits)

theorem decoded_value_returned_witness:
  "json_loads (json_text (ascii ''```{\"name\": \"Flu\"}```'')) =
     Inr (JDict [(ascii ''name'', JStr (ascii ''Flu''))]) \<and>
   get_disease_info (\<lambda>_. ascii ''```{\"name\": \"Flu\"}```'') (ascii ''flu'') =
     ([], Inr (JDict [(ascii ''name'', JStr (ascii ''Flu''))]))"
proof -
  have 1: "json_loads (json_text (ascii ''```{\"name\": \"Flu\"}```'')) =
     Inr (JDict [(ascii ''name'', JStr (ascii ''Flu''))])"
    by code_simp
  show ?thesis
    using decoded_value_returned[of "\<lambda>_. ascii ''```{\"name\": \"Flu\"}```''" "ascii ''flu''"] 1
    by simp
qed

text \<open>
  The claim as the specification states it fails: a payload that is a JSON list is
  returned as a list, and the empty object is returned without any field.
\<close>

theorem record_coercion_counterexample:
  "get_disease_info (\<lambda>_. ascii ''```[1]```'') (ascii ''flu'') = ([], Inr (JList [JInt 1])) \<and>
   \<not> disease_record_shape (JList [JInt 1]) \<and>
   get_disease_info (\<lambda>_. ascii ''```{}```'') (ascii ''flu'') = ([], Inr (JDict [])) \<and>
   \<not> disease_record_shape (JDict [])"
proof -
  have "json_loads (json_text (ascii ''```[1]```'')) = Inr (JList [JInt 1])"
    and "json_loads (json_text (ascii ''```{}```'')) = Inr (JDict [])"
    by code_simp+
  then show ?thesis
    by (simp add: get_disease_info_eq disease_record_shape_def)
qed

text \<open>
  Claim C9. On the response \<open>{}\<close> the extractor succeeds with the empty dictionary,
  and the presenter renders nothing for it, exactly as for \<open>None\<close>: the script shows
  its title and its input field only.
\<close>

theorem empty_record_renders_nothing:
  "get_disease_info (\<lambda>_. ascii ''{}'') disease_name = ([], Inr (JDict [])) \<and>
   display_disease_info (JDict []) = ([], Inr ()) \<and>
   display_disease_info (JDict []) = display_disease_info JNull \<and>
   app (\<lambda>_. ascii ''{}'') disease_name =
     ([StTitle (ascii ''Disease Information Dashboard''),
       StTextInput (ascii ''Enter the name of the disease:'')], Inr ())"
proof -
  have "json_loads (json_text (ascii ''{}'')) = Inr (JDict [])" by code_simp
  then show ?thesis
    by (simp add: get_disease_info_eq display_falsy app_def bind_def calls_def)
qed

text \<open>
  Claim C10. A response with exactly one fence: when the fence starts behind index 0
  the payload is empty and the extractor reports the decoding error; when the fence
  opens the response the payload is the whole response, fence included.
\<close>

theorem single_fence:
  assumes "occurrences fence (service disease_name) = [i]"
  shows "if 0 < i
         then json_text (service disease_name) = [] \<and>
              get_disease_info service disease_name =
                ([StError decode_error_message], Inr JNull)
         else json_text (service disease_name) = service disease_name"
proof (cases "0 < i")
  case True
  have "between_fences (service disease_name) = []"
    by (simp add: between_fences_def assms Let_def)
  then have "json_text (service disease_name) = []"
    using True by (simp add: json_text_eq assms py_strip_def strip_where_def)
  then show ?thesis
    using True by (simp add: get_disease_info_eq json_loads_empty)
next
  case False
  then show ?thesis by (simp add: json_text_eq assms)
qed

theorem single_fence_witness:
  "occurrences fence (ascii ''x```{}'') = [1] \<and>
   json_text (ascii ''x```{}'') = [] \<and>
   get_disease_info (\<lambda>_. ascii ''x```{}'') (ascii ''flu'') =
     ([StError decode_error_message], Inr JNull) \<and>
   occurrences fence (ascii ''```{}'') = [0] \<and>
   json_text (ascii ''```{}'') = ascii ''```{}''"
proof -
  have 1: "occurrences fence (ascii ''x```{}'') = [1]" by code_simp
  have 2: "occurrences fence (ascii ''```{}'') = [0]" by code_simp
  show ?thesis
    using single_fence[of "\<lambda>_. ascii ''x```{}''" "ascii ''flu''" 1, OF 1]
      single_fence[of "\<lambda>_. ascii ''```{}''" "ascii ''flu''" 0, OF 2] 1 2
    by simp
qed

section \<open>Properties of the presenter\<close>

lemma bind_calls [simp]: "bind (calls cs) f = (cs @ fst (f ()), snd (f ()))"
  by (simp add: bind_def calls_def split: prod.splits)

lemma bind_eval_Inr [simp]: "bind (eval (Inr a)) f = f a"
  by (simp add: bind_def eval_def split: prod.splits)

lemma bind_eval_Inl [simp]: "bind (eval (Inl e)) f = ([], Inl e)"
  by (simp add: bind_def eval_def)

lemma fst_calls [simp]: "fst (calls cs) = cs" and snd_calls [simp]: "snd (calls cs) = Inr ()"
  by (simp_all add: calls_def)

lemma for_each_ok:
  "list_all (\<lambda>x. snd (body x) = Inr ()) xs \<Longrightarrow>
   for_each body xs = (concat (map (\<lambda>x. fst (body x)) xs), Inr ())"
proof (induction xs)
  case Nil
  then show ?case by (simp add: calls_def)
next
  case (Cons x xs)
  then show ?case
    by (cases "body x") (simp add: bind_def)
qed

lemma py_get_field:
  "py_get (JDict m) (ascii key) (JStr (ascii placeholder)) = Inr (field (JDict m) key placeholder)"
  by (simp add: field_def)

lemma py_join_entry_ok:
  assumes "entry_ok med"
  shows "\<exists>v. py_get med (ascii ''side_effects'') (JList []) = Inr v \<and>
             py_join (ascii '', '') v = Inr (side_effects_text med)"
proof -
  from assms obtain m where m: "med = JDict m" by (cases med) auto
  show ?thesis
  proof (cases "map_of m (ascii ''side_effects'')")
    case None
    then show ?thesis by (simp add: m side_effects_text_def py_join_def)
  next
    case (Some v)
    with assms m obtain xs where "v = JList xs" "list_all is_JStr xs"
      by (cases v) auto
    with Some show ?thesis by (simp add: m side_effects_text_def py_join_def)
  qed
qed

lemma display_medication_entry_ok:
  assumes "entry_ok med"
  shows "display_medication_entry (idx, med) = (view_entry (idx, med), Inr ())"
proof -
  from assms obtain m where m: "med = JDict m" by (cases med) auto
  from py_join_entry_ok[OF assms] obtain v where
    v: "py_get (JDict m) (ascii ''side_effects'') (JList []) = Inr v"
       "py_join (ascii '', '') v = Inr (side_effects_text (JDict m))"
    unfolding m by blast
  show ?thesis
    unfolding display_medication_entry_def m
    by (simp add: py_get_field v view_entry_def entry_heading_def del: py_get.simps)
qed

lemma pdf_medication_entry_ok:
  assumes "entry_ok med"
  shows "pdf_medication_entry (idx, med) = (document_entry (idx, med), Inr ())"
proof -
  from assms obtain m where m: "med = JDict m" by (cases med) auto
  from py_join_entry_ok[OF assms] obtain v where
    v: "py_get (JDict m) (ascii ''side_effects'') (JList []) = Inr v"
       "py_join (ascii '', '') v = Inr (side_effects_text (JDict m))"
    unfolding m by blast
  show ?thesis
    unfolding pdf_medication_entry_def m
    by (simp add: py_get_field v document_entry_def entry_heading_def del: py_get.simps)
qed

lemma for_each_entries:
  assumes "list_all entry_ok meds"
  shows "for_each display_medication_entry (enumerate k meds) =
           (concat (map view_entry (enumerate k meds)), Inr ())"
    and "for_each pdf_medication_entry (enumerate k meds) =
           (concat (map document_entry (enumerate k meds)), Inr ())"
proof -
  have ok: "\<And>e. e \<in> set (enumerate k meds) \<Longrightarrow> entry_ok (snd e)"
    using assms by (auto simp: list_all_iff in_set_enumerate_eq)
  have 1: "list_all (\<lambda>e. snd (display_medication_entry e) = Inr ()) (enumerate k meds)"
    unfolding list_all_iff
  proof
    fix e assume "e \<in> set (enumerate k meds)"
    then have "entry_ok (snd e)" by (rule ok)
    then show "snd (display_medication_entry e) = Inr ()"
      using display_medication_entry_ok[of "snd e" "fst e"] by simp
  qed
  have 2: "list_all (\<lambda>e. snd (pdf_medication_entry e) = Inr ()) (enumerate k meds)"
    unfolding list_all_iff
  proof
    fix e assume "e \<in> set (enumerate k meds)"
    then have "entry_ok (snd e)" by (rule ok)
    then show "snd (pdf_medication_entry e) = Inr ()"
      using pdf_medication_entry_ok[of "snd e" "fst e"] by simp
  qed
  have 3: "map (\<lambda>e. fst (display_medication_entry e)) (enumerate k meds) = map view_entry (enumerate k meds)"
  proof (rule map_cong[OF refl])
    fix e assume "e \<in> set (enumerate k meds)"
    then have "entry_ok (snd e)" by (rule ok)
    then show "fst (display_medication_entry e) = view_entry e"
      using display_medication_entry_ok[of "snd e" "fst e"] by simp
  qed
  have 4: "map (\<lambda>e. fst (pdf_medication_entry e)) (enumerate k meds) = map document_entry (enumerate k meds)"
  proof (rule map_cong[OF refl])
    fix e assume "e \<in> set (enumerate k meds)"
    then have "entry_ok (snd e)" by (rule ok)
    then show "fst (pdf_medication_entry e) = document_entry e"
      using pdf_medication_entry_ok[of "snd e" "fst e"] by simp
  qed
  show "for_each display_medication_entry (enumerate k meds) =
           (concat (map view_entry (enumerate k meds)), Inr ())"
    using for_each_ok[OF 1] 3 by simp
  show "for_each pdf_medication_entry (enumerate k meds) =
           (concat (map document_entry (enumerate k meds)), Inr ())"
    using for_each_ok[OF 2] 4 by simp
qed

lemma bind_Inr [simp]: "bind (out, Inr a) f = (out @ fst (f a), snd (f a))"
  by (simp add: bind_def split: prod.splits)

lemma bind_Inl [simp]: "bind (out, Inl e) f = (out, Inl e)"
  by (simp add: bind_def)

lemma py_float_error: "py_float s = Inl e \<Longrightarrow> e = ValueError"
  by (auto simp: py_float_def Let_def split: option.splits if_splits prod.splits)

lemma rate_string:
  assumes "py_get stats key (JStr (ascii ''0%'')) = Inr (JStr r)"
  shows "rate stats key = py_float (strip_percent r)"
  using assms by (simp add: rate_def strip_percent_def ascii_def)

lemma display_statistics_eq:
  "display_statistics stats =
     (case rate stats (ascii ''recovery_rate'') of
        Inl e \<Rightarrow> if is_ValueError e then ([StError invalid_percentage_message], Inr ())
                 else ([], Inl e)
      | Inr a \<Rightarrow>
          (case rate stats (ascii ''mortality_rate'') of
             Inl e \<Rightarrow> if is_ValueError e then ([StError invalid_percentage_message], Inr ())
                      else ([], Inl e)
           | Inr b \<Rightarrow> ([StBarChart a b], Inr ())))"
  by (simp add: display_statistics_def try_except_ValueError_def calls_def eval_def
        split: sum.splits)

text \<open>
  Claim C4, as amended. For statistics whose two rates, each taken as \<open>0%\<close> when it
  is absent, are strings: the two-bar chart is drawn with the two converted values when
  both strings convert to floats after the percent signs are stripped, and otherwise the
  chart is skipped and the notice of invalid percentage values is shown. Either way the
  run goes on: the view of a non-empty record is its heading, the chart or the notice,
  and then what the remaining sections render.
\<close>

theorem chart_iff_rates_convert:
  assumes "py_get stats (ascii ''recovery_rate'') (JStr (ascii ''0%'')) = Inr (JStr r)"
    and "py_get stats (ascii ''mortality_rate'') (JStr (ascii ''0%'')) = Inr (JStr m)"
  shows "display_statistics stats =
           (if isl (py_float (strip_percent r)) \<or> isl (py_float (strip_percent m))
            then ([StError invalid_percentage_message], Inr ())
            else ([StBarChart (projr (py_float (strip_percent r)))
                              (projr (py_float (strip_percent m)))], Inr ())) \<and>
         (\<forall>info. truthy info \<and> py_get info (ascii ''statistics'') (JDict []) = Inr stats \<longrightarrow>
            display_disease_info info =
              (StWrite [Lit (ascii ''## Statistics for ''),
                        Val (field info ''name'' ''Unknown Disease'')] #
                 fst (display_statistics stats) @ fst (display_remaining info),
               snd (display_remaining info)))"
proof -
  have 1: "display_statistics stats =
           (if isl (py_float (strip_percent r)) \<or> isl (py_float (strip_percent m))
            then ([StError invalid_percentage_message], Inr ())
            else ([StBarChart (projr (py_float (strip_percent r)))
                              (projr (py_float (strip_percent m)))], Inr ()))"
    using py_float_error
    by (auto simp: display_statistics_eq rate_string[OF assms(1)] rate_string[OF assms(2)]
          is_ValueError_def split: sum.splits)
  then have ok: "snd (display_statistics stats) = Inr ()" by simp
  have 2: "display_disease_info info =
              (StWrite [Lit (ascii ''## Statistics for ''),
                        Val (field info ''name'' ''Unknown Disease'')] #
                 fst (display_statistics stats) @ fst (display_remaining info),
               snd (display_remaining info))"
    if "truthy info" and "py_get info (ascii ''statistics'') (JDict []) = Inr stats" for info
  proof -
    from that(2) obtain kvs where kvs: "info = JDict kvs" by (cases info) auto
    have name: "py_get info (ascii ''name'') (JStr (ascii ''Unknown Disease'')) =
                  Inr (field info ''name'' ''Unknown Disease'')"
      by (simp add: kvs field_def)
    obtain out where out: "display_statistics stats = (out, Inr ())"
      using ok by (cases "display_statistics stats") auto
    show ?thesis
      unfolding display_disease_info_def
      using that
      by (simp add: name out eval_def calls_def del: py_get.simps)
  qed
  from 1 2 show ?thesis by blast
qed

theorem chart_iff_rates_convert_witness:
  "display_statistics statistics_70_5 = ([StBarChart (Fl 70) (Fl 5)], Inr ()) \<and>
   display_statistics statistics_na = ([StError invalid_percentage_message], Inr ()) \<and>
   take 4 (fst (display_disease_info (JDict [(ascii ''statistics'', statistics_na)]))) =
     [StWrite [Lit (ascii ''## Statistics for ''), Val (JStr (ascii ''Unknown Disease''))],
      StError invalid_percentage_message,
      StWrite [Lit (ascii ''## Recovery Options'')],
      StWrite [Lit (ascii ''## Medication'')]] \<and>
   snd (display_disease_info (JDict [(ascii ''statistics'', statistics_na)])) = Inr ()"
proof -
  have f: "py_float (strip_percent (ascii ''70%'')) = Inr (Fl 70)"
      "py_float (strip_percent (ascii ''5%'')) = Inr (Fl 5)"
      "py_float (strip_percent (ascii ''N/A'')) = Inl ValueError"
    by code_simp+
  have a: "py_get statistics_70_5 (ascii ''recovery_rate'') (JStr (ascii ''0%'')) = Inr (JStr (ascii ''70%''))"
      "py_get statistics_70_5 (ascii ''mortality_rate'') (JStr (ascii ''0%'')) = Inr (JStr (ascii ''5%''))"
    by code_simp+
  have b: "py_get statistics_na (ascii ''recovery_rate'') (JStr (ascii ''0%'')) = Inr (JStr (ascii ''N/A''))"
      "py_get statistics_na (ascii ''mortality_rate'') (JStr (ascii ''0%'')) = Inr (JStr (ascii ''5%''))"
    by code_simp+
  have c: "truthy (JDict [(ascii ''statistics'', statistics_na)])"
      "py_get (JDict [(ascii ''statistics'', statistics_na)]) (ascii ''statistics'') (JDict []) = Inr statistics_na"
      "field (JDict [(ascii ''statistics'', statistics_na)]) ''name'' ''Unknown Disease'' = JStr (ascii ''Unknown Disease'')"
    by code_simp+
  have d: "take 2 (fst (display_remaining (JDict [(ascii ''statistics'', statistics_na)]))) =
     [StWrite [Lit (ascii ''## Recovery Options'')], StWrite [Lit (ascii ''## Medication'')]]"
     "snd (display_remaining (JDict [(ascii ''statistics'', statistics_na)])) = Inr ()"
    by code_simp+
  show ?thesis
    using chart_iff_rates_convert[OF a] chart_iff_rates_convert[OF b] c d
    by (simp add: f)
qed

text \<open>
  The claim as the specification states it fails on absent rates: for a record without
  statistics the chart is drawn, with two zeros, and no notice is shown.
\<close>

theorem chart_iff_rates_convert_counterexample:
  "map_of ([] :: (pystr \<times> json) list) (ascii ''recovery_rate'') = None \<and>
   display_statistics (JDict []) = ([StBarChart (Fl 0) (Fl 0)], Inr ()) \<and>
   take 2 (fst (display_disease_info (JDict [(ascii ''name'', JStr (ascii ''Flu''))]))) =
     [StWrite [Lit (ascii ''## Statistics for ''), Val (JStr (ascii ''Flu''))],
      StBarChart (Fl 0) (Fl 0)] \<and>
   StError invalid_percentage_message \<notin>
     set (fst (display_disease_info (JDict [(ascii ''name'', JStr (ascii ''Flu''))])))"
  by code_simp

text \<open>
  Claim C5, as amended. The chart is drawn from the two converted rates as they are:
  whenever both rates convert, whatever the values are, the chart shows exactly these
  values and no notice; and a chart is only ever drawn from the two converted values.
  There is no check of the range.
\<close>

theorem chart_values_unchecked:
  "(rate stats (ascii ''recovery_rate'') = Inr a \<and> rate stats (ascii ''mortality_rate'') = Inr b \<longrightarrow>
      display_statistics stats = ([StBarChart a b], Inr ())) \<and>
   (StBarChart a b \<in> set (fst (display_statistics stats)) \<longrightarrow>
      rate stats (ascii ''recovery_rate'') = Inr a \<and> rate stats (ascii ''mortality_rate'') = Inr b)"
  by (auto simp: display_statistics_eq split: sum.splits if_splits)

theorem chart_values_unchecked_witness:
  "rate statistics_150 (ascii ''recovery_rate'') = Inr (Fl 150) \<and>
   rate statistics_150 (ascii ''mortality_rate'') = Inr (Fl 5) \<and>
   display_statistics statistics_150 = ([StBarChart (Fl 150) (Fl 5)], Inr ())"
proof -
  have r: "rate statistics_150 (ascii ''recovery_rate'') = Inr (Fl 150)"
      "rate statistics_150 (ascii ''mortality_rate'') = Inr (Fl 5)"
    by code_simp+
  show ?thesis
    using chart_values_unchecked[of statistics_150 "Fl 150" "Fl 5"] r by simp
qed

text \<open>
  The claim as the specification states it fails: a recovery rate of \<open>150%\<close> is
  outside the range, and it is charted without a notice.
\<close>

theorem chart_values_unchecked_counterexample:
  "rate statistics_150 (ascii ''recovery_rate'') = Inr (Fl 150) \<and>
   \<not> in_percent_range (Fl 150) \<and>
   display_statistics statistics_150 = ([StBarChart (Fl 150) (Fl 5)], Inr ()) \<and>
   StError invalid_percentage_message \<notin> set (fst (display_statistics statistics_150))"
  by code_simp



lemma snd_bind_Inr:
  assumes "snd (bind m f) = Inr u"
  obtains a where "snd m = Inr a" and "snd (f a) = Inr u"
  using assms by (cases m) (auto simp: bind_def split: sum.splits prod.splits)

lemma fst_bind_Inr: "snd m = Inr a \<Longrightarrow> fst (bind m f) = fst m @ fst (f a)"
  by (cases m) (auto simp: bind_def split: prod.splits)

lemma snd_bind: "snd m = Inr a \<Longrightarrow> snd (bind m f) = snd (f a)"
  by (cases m) (auto simp: bind_def split: prod.splits)

lemma for_each_all_ok:
  "snd (for_each body xs) = Inr () \<Longrightarrow> list_all (\<lambda>x. snd (body x) = Inr ()) xs"
proof (induction xs)
  case Nil
  then show ?case by simp
next
  case (Cons x xs)
  from Cons.prems obtain a where "snd (body x) = Inr a" "snd (for_each body xs) = Inr ()"
    by (auto elim: snd_bind_Inr)
  with Cons.IH show ?case by simp
qed

lemma for_each_same_content:
  assumes "list_all (\<lambda>x. snd (b1 x) = Inr ()) xs"
    and "list_all (\<lambda>x. snd (b2 x) = Inr ()) xs"
    and "list_all (\<lambda>x. view_content (b1 x) = document_content (b2 x)) xs"
  shows "view_content (for_each b1 xs) = document_content (for_each b2 xs)"
  using assms
proof (induction xs)
  case Nil
  then show ?case by (simp add: view_content_def document_content_def)
next
  case (Cons x xs)
  then have "view_content (for_each b1 xs) = document_content (for_each b2 xs)" by simp
  moreover have "view_content (b1 x) = document_content (b2 x)" using Cons.prems by simp
  moreover have "snd (b1 x) = Inr ()" "snd (b2 x) = Inr ()" using Cons.prems by simp_all
  ultimately show ?case
    by (simp add: view_content_def document_content_def fst_bind_Inr)
qed

lemma recovery_option_same:
  "view_content (display_recovery_option item) = document_content (pdf_recovery_option item) \<or>
   snd (pdf_recovery_option item) \<noteq> Inr ()"
  by (cases item)
     (simp add: display_recovery_option_def pdf_recovery_option_def view_content_def
        document_content_def eval_def)

lemma medication_entry_same:
  assumes "snd (pdf_medication_entry e) = Inr ()"
  shows "snd (display_medication_entry e) = Inr () \<and>
         view_content (display_medication_entry e) = document_content (pdf_medication_entry e)"
proof -
  obtain idx med where e: "e = (idx, med)" by (cases e)
  from assms obtain m where m: "med = JDict m"
    by (cases med) (auto simp: e pdf_medication_entry_def)
  obtain v where v: "py_get (JDict m) (ascii ''side_effects'') (JList []) = Inr v" by simp
  from assms obtain j where j: "py_join (ascii '', '') v = Inr j"
    using v unfolding e m pdf_medication_entry_def
    by (cases "py_join (ascii '', '') v") (simp_all del: py_get.simps add: py_get_field)
  show ?thesis
    unfolding e m display_medication_entry_def pdf_medication_entry_def
    by (simp add: py_get_field v j view_content_def document_content_def del: py_get.simps)
qed

lemma recovery_options_same:
  assumes "snd (pdf_recovery_options info) = Inr ()"
  shows "snd (display_recovery_options info) = Inr () \<and>
         view_content (display_recovery_options info) =
           document_content (pdf_recovery_options info)"
proof -
  from assms obtain options where o: "py_get info (ascii ''recovery_options'') (JDict []) = Inr options"
    unfolding pdf_recovery_options_def
    by (cases "py_get info (ascii ''recovery_options'') (JDict [])") simp_all
  from assms obtain items where i: "py_items options = Inr items"
    unfolding pdf_recovery_options_def
    by (cases "py_items options") (simp_all add: o)
  from assms have p: "snd (for_each pdf_recovery_option items) = Inr ()"
    unfolding pdf_recovery_options_def by (simp add: o i)
  have ok2: "list_all (\<lambda>x. snd (pdf_recovery_option x) = Inr ()) items"
    using for_each_all_ok[OF p] .
  have ok1: "list_all (\<lambda>x. snd (display_recovery_option x) = Inr ()) items"
    by (simp add: list_all_iff display_recovery_option_def split: prod.splits)
  have same: "list_all (\<lambda>x. view_content (display_recovery_option x) =
                            document_content (pdf_recovery_option x)) items"
    using ok2 recovery_option_same by (auto simp: list_all_iff)
  have c: "view_content (for_each display_recovery_option items) =
           document_content (for_each pdf_recovery_option items)"
    by (rule for_each_same_content[OF ok1 ok2 same])
  have d: "snd (for_each display_recovery_option items) = Inr ()"
    using for_each_ok[OF ok1] by simp
  show ?thesis
    using c d
    unfolding display_recovery_options_def pdf_recovery_options_def
    by (simp add: o i view_content_def document_content_def)
qed

lemma medication_same:
  assumes "snd (pdf_medication info) = Inr ()"
  shows "snd (display_medication info) = Inr () \<and>
         view_content (display_medication info) = document_content (pdf_medication info)"
proof -
  from assms obtain medication where o: "py_get info (ascii ''medication'') (JList []) = Inr medication"
    unfolding pdf_medication_def
    by (cases "py_get info (ascii ''medication'') (JList [])") simp_all
  from assms obtain meds where i: "py_iter medication = Inr meds"
    unfolding pdf_medication_def
    by (cases "py_iter medication") (simp_all add: o)
  from assms have p: "snd (for_each pdf_medication_entry (enumerate 1 meds)) = Inr ()"
    unfolding pdf_medication_def by (simp add: o i)
  have ok2: "list_all (\<lambda>x. snd (pdf_medication_entry x) = Inr ()) (enumerate 1 meds)"
    using for_each_all_ok[OF p] .
  have ok1: "list_all (\<lambda>x. snd (display_medication_entry x) = Inr ()) (enumerate 1 meds)"
    using ok2 medication_entry_same by (auto simp: list_all_iff)
  have same: "list_all (\<lambda>x. view_content (display_medication_entry x) =
                            document_content (pdf_medication_entry x)) (enumerate 1 meds)"
    using ok2 medication_entry_same by (auto simp: list_all_iff)
  have c: "view_content (for_each display_medication_entry (enumerate 1 meds)) =
           document_content (for_each pdf_medication_entry (enumerate 1 meds))"
    by (rule for_each_same_content[OF ok1 ok2 same])
  have d: "snd (for_each display_medication_entry (enumerate 1 meds)) = Inr ()"
    using for_each_ok[OF ok1] by simp
  show ?thesis
    using c d
    unfolding display_medication_def pdf_medication_def
    by (simp add: o i view_content_def document_content_def)
qed

lemma generate_pdf_ok: "snd (generate_pdf info) = Inr () \<Longrightarrow> snd (pdf_pages info) = Inr ()"
  by (cases "pdf_pages info") (auto simp: generate_pdf_def split: sum.splits)

lemma generate_pdf_eq:
  "snd (pdf_pages info) = Inr () \<Longrightarrow>
   generate_pdf info = (fst (pdf_pages info), output_latin1 (fst (pdf_pages info)))"
  by (cases "pdf_pages info") (auto simp: generate_pdf_def)

lemma same_options_and_medication_aux:
  assumes "snd (generate_pdf info) = Inr ()"
  shows "snd (display_recovery_options info) = Inr () \<and>
         view_content (display_recovery_options info) =
           document_content (pdf_recovery_options info) \<and>
         snd (display_medication info) = Inr () \<and>
         view_content (display_medication info) = document_content (pdf_medication info)"
proof -
  have "snd (pdf_recovery_options info) = Inr ()"
    and "snd (pdf_medication info) = Inr ()"
    using generate_pdf_ok[OF assms] unfolding pdf_pages_def by (auto elim!: snd_bind_Inr)
  then show ?thesis
    using recovery_options_same medication_same by blast
qed

text \<open>
  Claim C7, as amended. Whenever the document is generated without an exception, the two
  renderers show the same content in the recovery options section and in the medication
  section: the same values in the same order, with the same placeholders \<open>Unknown\<close>
  and \<open>N/A\<close> and the same joined side effects; and the two sections of the interactive
  view raise nothing either.
\<close>

theorem same_options_and_medication:
  assumes "snd (generate_pdf info) = Inr ()"
  shows "snd (display_recovery_options info) = Inr () \<and>
         view_content (display_recovery_options info) =
           document_content (pdf_recovery_options info) \<and>
         snd (display_medication info) = Inr () \<and>
         view_content (display_medication info) = document_content (pdf_medication info)"
  using assms by (rule same_options_and_medication_aux)

theorem same_options_and_medication_witness:
  "snd (generate_pdf example_record) = Inr () \<and>
   view_content (display_recovery_options example_record) =
     [JStr (ascii ''Rest''), JStr (ascii ''Sleep well'')] \<and>
   document_content (pdf_recovery_options example_record) =
     [JStr (ascii ''Rest''), JStr (ascii ''Sleep well'')] \<and>
   view_content (display_medication example_record) =
     [JInt 1, JStr (ascii ''Aspirin''), JStr (ascii ''1 daily''), JStr (ascii ''nausea, rash''),
      JInt 2, JStr (ascii ''Zinc''), JStr (ascii ''N/A''), JStr []] \<and>
   document_content (pdf_medication example_record) =
     [JInt 1, JStr (ascii ''Aspirin''), JStr (ascii ''1 daily''), JStr (ascii ''nausea, rash''),
      JInt 2, JStr (ascii ''Zinc''), JStr (ascii ''N/A''), JStr []]"
proof -
  have 1: "snd (generate_pdf example_record) = Inr ()" by code_simp
  have 2: "document_content (pdf_recovery_options example_record) =
     [JStr (ascii ''Rest''), JStr (ascii ''Sleep well'')]"
    "document_content (pdf_medication example_record) =
     [JInt 1, JStr (ascii ''Aspirin''), JStr (ascii ''1 daily''), JStr (ascii ''nausea, rash''),
      JInt 2, JStr (ascii ''Zinc''), JStr (ascii ''N/A''), JStr []]"
    by code_simp+
  show ?thesis
    using same_options_and_medication[OF 1] 1 2 by simp
qed

text \<open>
  The claim as the specification states it fails: for a record without a name the
  interactive view shows \<open>Unknown Disease\<close> and the document \<open>Disease Info\<close>; the
  view charts absent rates as zeros where the document prints \<open>N/A\<close>; and for the
  complete example record the view leaves out the total cases that the document prints.
\<close>

theorem content_equivalence_counterexample:
  "view_content (display_disease_info (JDict [(ascii ''medication'', JList [])])) =
     [JStr (ascii ''Unknown Disease''), JFloat (Fl 0), JFloat (Fl 0)] \<and>
   document_content (generate_pdf (JDict [(ascii ''medication'', JList [])])) =
     [JStr (ascii ''Disease Info''), JStr (ascii ''N/A''), JStr (ascii ''N/A''), JStr (ascii ''N/A'')] \<and>
   view_content (display_disease_info example_record) \<noteq>
     document_content (generate_pdf example_record)"
  by code_simp

lemma rate_total:
  assumes "rate_ok (map_of st key)"
  shows "(\<exists>a. rate (JDict st) key = Inr a) \<or> rate (JDict st) key = Inl ValueError"
proof -
  obtain s where "py_get (JDict st) key (JStr (ascii ''0%'')) = Inr (JStr s)"
    using assms by (cases "map_of st key"; cases "the (map_of st key)") (auto simp: rate_ok_def)
  then have "rate (JDict st) key = py_float (strip_percent s)" by (rule rate_string)
  then show ?thesis
    using py_float_error by (cases "py_float (strip_percent s)") auto
qed

lemma statistics_lookup:
  assumes "statistics_ok (map_of kvs (ascii ''statistics''))"
  obtains st where "py_get (JDict kvs) (ascii ''statistics'') (JDict []) = Inr (JDict st)"
    and "rate_ok (map_of st (ascii ''recovery_rate''))"
    and "rate_ok (map_of st (ascii ''mortality_rate''))"
proof (cases "map_of kvs (ascii ''statistics'')")
  case None
  then show ?thesis using that[of "[]"] by (simp add: rate_ok_def)
next
  case (Some v)
  with assms obtain st where "v = JDict st"
    "rate_ok (map_of st (ascii ''recovery_rate''))" "rate_ok (map_of st (ascii ''mortality_rate''))"
    by (cases v) (auto simp: statistics_ok_def)
  with Some show ?thesis using that[of st] by simp
qed

lemma display_statistics_total:
  assumes "rate_ok (map_of st (ascii ''recovery_rate''))"
    and "rate_ok (map_of st (ascii ''mortality_rate''))"
  shows "snd (display_statistics (JDict st)) = Inr ()"
  using rate_total[OF assms(1)] rate_total[OF assms(2)]
  by (auto simp: display_statistics_eq is_ValueError_def split: sum.splits)

lemma pdf_title_total: "snd (pdf_title (JDict kvs)) = Inr ()"
  by (simp add: pdf_title_def)

lemma pdf_statistics_total:
  assumes "statistics_ok (map_of kvs (ascii ''statistics''))"
  shows "snd (pdf_statistics (JDict kvs)) = Inr ()"
proof -
  from assms obtain st where
    st: "py_get (JDict kvs) (ascii ''statistics'') (JDict []) = Inr (JDict st)"
    by (rule statistics_lookup)
  show ?thesis
    unfolding pdf_statistics_def by (simp add: st del: py_get.simps) simp
qed

lemma pdf_recovery_options_total:
  assumes "recovery_options_ok (map_of kvs (ascii ''recovery_options''))"
  shows "snd (pdf_recovery_options (JDict kvs)) = Inr ()"
proof -
  obtain ro where ro: "py_get (JDict kvs) (ascii ''recovery_options'') (JDict []) = Inr (JDict ro)"
    and ok: "list_all (\<lambda>item. is_JStr (snd item)) ro"
  proof (cases "map_of kvs (ascii ''recovery_options'')")
    case None
    then show ?thesis using that[of "[]"] by simp
  next
    case (Some v)
    with assms obtain ro where "v = JDict ro" "list_all (\<lambda>item. is_JStr (snd item)) ro"
      by (cases v) (auto simp: recovery_options_ok_def)
    with Some show ?thesis using that[of ro] by simp
  qed
  have "list_all (\<lambda>x. snd (pdf_recovery_option x) = Inr ()) ro"
    using ok by (auto simp: list_all_iff pdf_recovery_option_def eval_def split: prod.splits)
  then have "snd (for_each pdf_recovery_option ro) = Inr ()"
    using for_each_ok by fastforce
  then show ?thesis
    unfolding pdf_recovery_options_def by (simp add: ro del: py_get.simps)
qed

lemma medication_lookup:
  assumes "medication_ok (map_of kvs (ascii ''medication''))"
  obtains meds where "py_get (JDict kvs) (ascii ''medication'') (JList []) = Inr (JList meds)"
    and "list_all entry_ok meds"
proof (cases "map_of kvs (ascii ''medication'')")
  case None
  then show ?thesis using that[of "[]"] by simp
next
  case (Some v)
  with assms obtain meds where "v = JList meds" "list_all entry_ok meds"
    by (cases v) (auto simp: medication_ok_def)
  with Some show ?thesis using that[of meds] by simp
qed

lemma pdf_medication_total:
  assumes "medication_ok (map_of kvs (ascii ''medication''))"
  shows "snd (pdf_medication (JDict kvs)) = Inr ()"
proof -
  from assms obtain meds where
    m: "py_get (JDict kvs) (ascii ''medication'') (JList []) = Inr (JList meds)"
    and ok: "list_all entry_ok meds"
    by (rule medication_lookup)
  show ?thesis
    unfolding pdf_medication_def
    by (simp add: m for_each_entries(2)[OF ok] del: py_get.simps)
qed

lemma recovery_options_lookup:
  assumes "recovery_options_ok (map_of kvs (ascii ''recovery_options''))"
  obtains ro where "py_get (JDict kvs) (ascii ''recovery_options'') (JDict []) = Inr (JDict ro)"
    and "list_all (\<lambda>item. is_JStr (snd item)) ro"
proof (cases "map_of kvs (ascii ''recovery_options'')")
  case None
  then show ?thesis using that[of "[]"] by simp
next
  case (Some v)
  with assms obtain ro where "v = JDict ro" "list_all (\<lambda>item. is_JStr (snd item)) ro"
    by (cases v) (auto simp: recovery_options_ok_def)
  with Some show ?thesis using that[of ro] by simp
qed

lemma of_char_less_256: "of_char c < (256 :: nat)"
proof -
  have "(of_char c :: nat) mod 256 = of_char c" by simp
  then show ?thesis by (metis mod_less_divisor zero_less_numeral)
qed

lemma latin1_ascii [simp]: "latin1 (ascii s)"
  by (simp add: latin1_def ascii_def list_all_iff of_char_less_256)

lemma latin1_newline_ascii [simp]: "latin1 (10 # ascii s)"
  using latin1_ascii[of s] by (simp add: latin1_def)

lemma latin1_text_repr: "latin1_text v \<Longrightarrow> repr_latin1 v"
  by (induction v rule: latin1_text.induct)
     (auto simp: list_all_iff latin1_def repr_latin1_str_def)

lemma latin1_text_str: "latin1_text v \<Longrightarrow> str_latin1 v"
  using latin1_text_repr[of v] by (cases v) simp_all

lemma latin1_text_get:
  assumes "latin1_text (JDict m)" and "latin1_text d" and "py_get (JDict m) k d = Inr v"
  shows "latin1_text v"
proof (cases "map_of m k")
  case None
  with assms show ?thesis by simp
next
  case (Some x)
  then have "(k, x) \<in> set m" by (rule map_of_SomeD)
  with assms(1) have "latin1_text x" by (auto simp: list_all_iff)
  with Some assms(3) show ?thesis by simp
qed

lemma latin1_text_field: "latin1_text obj \<Longrightarrow> latin1_text (field obj key p)"
proof (cases obj)
  case (JDict m)
  assume "latin1_text obj"
  then show ?thesis
    using latin1_text_get[of m "JStr (ascii p)" "ascii key" "field (JDict m) key p"]
    by (simp add: JDict py_get_field del: py_get.simps)
qed (simp_all add: field_def)

lemma str_latin1_field: "latin1_text obj \<Longrightarrow> str_latin1 (field obj key p)"
  by (rule latin1_text_str[OF latin1_text_field])

lemma latin1_join_strs: "latin1 sep \<Longrightarrow> list_all latin1 xs \<Longrightarrow> latin1 (join_strs sep xs)"
  by (induction sep xs rule: join_strs.induct) (simp_all add: latin1_def)

lemma latin1_str_of: "latin1_text x \<Longrightarrow> latin1 (str_of x)"
  by (cases x) (simp_all add: latin1_def)

lemma latin1_side_effects_text:
  assumes "latin1_text med"
  shows "latin1 (side_effects_text med)"
proof (cases med)
  case (JDict m)
  show ?thesis
  proof (cases "map_of m (ascii ''side_effects'')")
    case None
    then show ?thesis by (simp add: JDict side_effects_text_def latin1_def)
  next
    case (Some v)
    then have "(ascii ''side_effects'', v) \<in> set m" by (rule map_of_SomeD)
    with assms have v: "latin1_text v" by (auto simp: JDict list_all_iff)
    show ?thesis
    proof (cases v)
      case (JList xs)
      with v have "list_all latin1 (map str_of xs)"
        by (auto simp: list_all_iff latin1_str_of)
      then show ?thesis
        by (simp add: \<open>med = JDict m\<close> Some JList side_effects_text_def latin1_join_strs)
    qed (simp_all add: \<open>med = JDict m\<close> Some side_effects_text_def latin1_def)
  qed
qed (simp_all add: side_effects_text_def latin1_def)

lemma document_entry_latin1:
  "latin1_text (snd e) \<Longrightarrow> list_all call_latin1 (document_entry e)"
  by (simp add: document_entry_def entry_heading_def str_latin1_field
        latin1_side_effects_text)

lemma list_all_concat: "list_all P (concat xss) = list_all (list_all P) xss"
  by (induction xss) simp_all

lemma pdf_title_latin1:
  assumes "latin1_text (JDict kvs)"
  shows "list_all call_latin1 (fst (pdf_title (JDict kvs)))"
  by (simp add: pdf_title_def py_get_field str_latin1_field[OF assms] del: py_get.simps)

lemma pdf_statistics_latin1:
  assumes "statistics_ok (map_of kvs (ascii ''statistics''))" and "latin1_text (JDict kvs)"
  shows "list_all call_latin1 (fst (pdf_statistics (JDict kvs)))"
proof -
  from assms(1) obtain st where
    st: "py_get (JDict kvs) (ascii ''statistics'') (JDict []) = Inr (JDict st)"
    by (rule statistics_lookup)
  have l: "latin1_text (JDict st)"
    using latin1_text_get[OF assms(2) _ st] by simp
  show ?thesis
    unfolding pdf_statistics_def
    by (simp add: st py_get_field str_latin1_field[OF l] del: py_get.simps)
qed

lemma pdf_recovery_options_latin1:
  assumes "recovery_options_ok (map_of kvs (ascii ''recovery_options''))"
    and "latin1_text (JDict kvs)"
  shows "list_all call_latin1 (fst (pdf_recovery_options (JDict kvs)))"
proof -
  from assms(1) obtain ro where
    ro: "py_get (JDict kvs) (ascii ''recovery_options'') (JDict []) = Inr (JDict ro)"
    and ok: "list_all (\<lambda>item. is_JStr (snd item)) ro"
    by (rule recovery_options_lookup)
  have l: "latin1_text (JDict ro)"
    using latin1_text_get[OF assms(2) _ ro] by simp
  have "list_all (\<lambda>x. snd (pdf_recovery_option x) = Inr ()) ro"
    using ok by (auto simp: list_all_iff pdf_recovery_option_def eval_def split: prod.splits)
  then have f: "for_each pdf_recovery_option ro =
                  (concat (map (\<lambda>x. fst (pdf_recovery_option x)) ro), Inr ())"
    by (rule for_each_ok)
  have "list_all call_latin1 (fst (pdf_recovery_option item))" if "item \<in> set ro" for item
  proof -
    obtain option description where item: "item = (option, description)" by (cases item)
    from that ok obtain d where d: "description = JStr d"
      by (cases description) (auto simp: item list_all_iff)
    from that l have "latin1 option" "latin1 d"
      by (auto simp: item d list_all_iff)
    then show ?thesis
      by (simp add: item d pdf_recovery_option_def eval_def)
  qed
  then have "list_all call_latin1 (concat (map (\<lambda>x. fst (pdf_recovery_option x)) ro))"
    by (simp add: list_all_concat list_all_iff)
  then show ?thesis
    unfolding pdf_recovery_options_def by (simp add: ro f del: py_get.simps)
qed

lemma pdf_medication_latin1:
  assumes "medication_ok (map_of kvs (ascii ''medication''))" and "latin1_text (JDict kvs)"
  shows "list_all call_latin1 (fst (pdf_medication (JDict kvs)))"
proof -
  from assms(1) obtain meds where
    m: "py_get (JDict kvs) (ascii ''medication'') (JList []) = Inr (JList meds)"
    and ok: "list_all entry_ok meds"
    by (rule medication_lookup)
  have l: "latin1_text (JList meds)"
    using latin1_text_get[OF assms(2) _ m] by simp
  have "list_all call_latin1 (document_entry e)" if "e \<in> set (enumerate 1 meds)" for e
  proof -
    from that have "snd e \<in> set (map snd (enumerate 1 meds))"
      by (simp del: map_snd_enumerate)
    then have "snd e \<in> set meds" by simp
    with l have "latin1_text (snd e)" by (simp add: list_all_iff)
    then show ?thesis by (rule document_entry_latin1)
  qed
  then have "list_all call_latin1 (concat (map document_entry (enumerate 1 meds)))"
    by (simp add: list_all_concat list_all_iff)
  then show ?thesis
    unfolding pdf_medication_def
    by (simp add: m for_each_entries(2)[OF ok] del: py_get.simps)
qed

lemma pdf_pages_total:
  assumes "well_typed (JDict kvs)" and "latin1_text (JDict kvs)"
  shows "snd (pdf_pages (JDict kvs)) = Inr ()"
    and "list_all call_latin1 (fst (pdf_pages (JDict kvs)))"
proof -
  from assms(1) have w: "statistics_ok (map_of kvs (ascii ''statistics''))"
    "recovery_options_ok (map_of kvs (ascii ''recovery_options''))"
    "medication_ok (map_of kvs (ascii ''medication''))"
    by simp_all
  show "snd (pdf_pages (JDict kvs)) = Inr ()"
    unfolding pdf_pages_def
    by (simp add: snd_bind[OF pdf_title_total] snd_bind[OF pdf_statistics_total[OF w(1)]]
          snd_bind[OF pdf_recovery_options_total[OF w(2)]] pdf_medication_total[OF w(3)])
  show "list_all call_latin1 (fst (pdf_pages (JDict kvs)))"
    unfolding pdf_pages_def
    by (simp add: fst_bind_Inr[OF pdf_title_total]
          fst_bind_Inr[OF pdf_statistics_total[OF w(1)]]
          fst_bind_Inr[OF pdf_recovery_options_total[OF w(2)]]
          pdf_title_latin1[OF assms(2)] pdf_statistics_latin1[OF w(1) assms(2)]
          pdf_recovery_options_latin1[OF w(2) assms(2)]
          pdf_medication_latin1[OF w(3) assms(2)])
qed

lemma generate_pdf_total:
  assumes "well_typed (JDict kvs)" and "latin1_text (JDict kvs)"
  shows "snd (generate_pdf (JDict kvs)) = Inr ()"
  using pdf_pages_total[OF assms]
  by (simp add: generate_pdf_eq output_latin1_def)

lemma display_disease_info_total:
  assumes "well_typed (JDict kvs)" and "latin1_text (JDict kvs)"
  shows "snd (display_disease_info (JDict kvs)) = Inr ()"
proof (cases "kvs = []")
  case True
  then show ?thesis by (simp add: display_falsy)
next
  case False
  from assms(1) obtain st where
    st: "py_get (JDict kvs) (ascii ''statistics'') (JDict []) = Inr (JDict st)"
    and r: "rate_ok (map_of st (ascii ''recovery_rate''))" "rate_ok (map_of st (ascii ''mortality_rate''))"
    using statistics_lookup[of kvs] by auto
  have pdf: "snd (generate_pdf (JDict kvs)) = Inr ()"
    using assms by (rule generate_pdf_total)
  have 1: "snd (display_recovery_options (JDict kvs)) = Inr ()"
    and 2: "snd (display_medication (JDict kvs)) = Inr ()"
    using same_options_and_medication_aux[OF pdf] by simp_all
  have 3: "snd (display_download (JDict kvs)) = Inr ()"
    using pdf unfolding display_download_def
    by (cases "generate_pdf (JDict kvs)") simp
  have rem: "snd (display_remaining (JDict kvs)) = Inr ()"
    unfolding display_remaining_def
    by (simp add: snd_bind[OF 1] snd_bind[OF 2] 3)
  show ?thesis
    unfolding display_disease_info_def
    using False
    by (simp add: st py_get_field snd_bind[OF display_statistics_total[OF r]] rem
          del: py_get.simps)
qed

lemma rate_default: "rate (JDict []) key = Inr (Fl 0)"
proof -
  have "py_float (ascii ''0'') = Inr (Fl 0)" by code_simp
  moreover have "strip_percent (ascii ''0%'') = ascii ''0''" by code_simp
  ultimately show ?thesis
    using rate_string[of "JDict []" key "ascii ''0%''"] by simp
qed

lemma all_absent:
  assumes "list_all (\<lambda>k. map_of kvs (ascii k) = None) schema_fields"
  shows "generate_pdf (JDict kvs) = (placeholder_document, Inr ())"
    and "kvs \<noteq> [] \<Longrightarrow> display_disease_info (JDict kvs) = (placeholder_view, Inr ())"
proof -
  from assms have a: "map_of kvs (ascii ''name'') = None"
    "map_of kvs (ascii ''statistics'') = None"
    "map_of kvs (ascii ''recovery_options'') = None"
    "map_of kvs (ascii ''medication'') = None"
    by (simp_all add: schema_fields_def)
  have e: "map_of ([] :: (pystr \<times> json) list) k = None" for k by simp
  have pages: "pdf_pages (JDict kvs) = (placeholder_document, Inr ())"
    by (simp add: pdf_pages_def pdf_title_def pdf_statistics_def pdf_recovery_options_def
          pdf_medication_def a placeholder_document_def calls_def)
  have "output_latin1 placeholder_document = Inr ()" by code_simp
  with pages show pdf: "generate_pdf (JDict kvs) = (placeholder_document, Inr ())"
    by (simp add: generate_pdf_eq)
  show "display_disease_info (JDict kvs) = (placeholder_view, Inr ())" if "kvs \<noteq> []"
    using that
    by (simp add: display_disease_info_def display_statistics_eq rate_default
          display_remaining_def display_recovery_options_def display_medication_def
          display_download_def pdf a placeholder_view_def calls_def)
qed

text \<open>
  Claim C3, as amended. For every record that follows the data model (an object whose
  fields, where present, have the types of the model) and whose text is within Latin-1,
  both renderers complete without raising, whichever fields are missing or empty. For a
  non-empty record with none of the four fields, each absent field is rendered as its
  placeholder: \<open>Unknown Disease\<close> in the view and \<open>Disease Info\<close> in the document
  for the name, \<open>N/A\<close> for the three statistics of the document, a chart of two zeros
  in the view, empty sections for the recovery options and the medication, and a
  download named \<open>disease_info.pdf\<close>.
\<close>

theorem renderers_total_on_well_typed:
  assumes "well_typed info" and "latin1_text info"
  shows "snd (display_disease_info info) = Inr () \<and>
         snd (generate_pdf info) = Inr () \<and>
         (\<forall>kvs. info = JDict kvs \<and> kvs \<noteq> [] \<and>
                list_all (\<lambda>k. map_of kvs (ascii k) = None) schema_fields \<longrightarrow>
            display_disease_info info = (placeholder_view, Inr ()) \<and>
            generate_pdf info = (placeholder_document, Inr ()))"
proof -
  from assms obtain kvs where "info = JDict kvs" by (cases info) auto
  with assms show ?thesis
    using display_disease_info_total generate_pdf_total all_absent by auto
qed

theorem renderers_total_on_well_typed_witness:
  "well_typed example_record \<and> latin1_text example_record \<and>
   snd (display_disease_info example_record) = Inr () \<and>
   snd (generate_pdf example_record) = Inr () \<and>
   display_disease_info (JDict [(ascii ''note'', JNull)]) = (placeholder_view, Inr ()) \<and>
   generate_pdf (JDict [(ascii ''note'', JNull)]) = (placeholder_document, Inr ())"
proof -
  have 1: "well_typed example_record" "latin1_text example_record" by code_simp+
  have 2: "well_typed (JDict [(ascii ''note'', JNull)])"
    "latin1_text (JDict [(ascii ''note'', JNull)])" by code_simp+
  have 3: "list_all (\<lambda>k. map_of [(ascii ''note'', JNull)] (ascii k) = None) schema_fields"
    by code_simp
  show ?thesis
    using renderers_total_on_well_typed[OF 1] renderers_total_on_well_typed[OF 2] 1 3
    by simp
qed

text \<open>
  The claim as the specification states it fails for a field of unexpected type:
  statistics that are a string raise \<open>AttributeError\<close> in both renderers, and a
  medication that is \<open>null\<close> raises \<open>TypeError\<close> in both. It fails as well for a
  record of the expected types whose text is outside Latin-1: a name in Greek letters
  raises \<open>UnicodeEncodeError\<close> when the document is put out, in both renderers.
\<close>

theorem renderers_total_counterexample:
  "snd (display_disease_info (JDict [(ascii ''statistics'', JStr (ascii ''high''))])) =
     Inl AttributeError \<and>
   snd (generate_pdf (JDict [(ascii ''statistics'', JStr (ascii ''high''))])) =
     Inl AttributeError \<and>
   snd (display_disease_info (JDict [(ascii ''medication'', JNull)])) = Inl TypeError \<and>
   snd (generate_pdf (JDict [(ascii ''medication'', JNull)])) = Inl TypeError \<and>
   well_typed (JDict [(ascii ''name'', JStr [915, 961, 943, 960, 951])]) \<and>
   snd (generate_pdf (JDict [(ascii ''name'', JStr [915, 961, 943, 960, 951])])) =
     Inl UnicodeEncodeError \<and>
   snd (display_disease_info (JDict [(ascii ''name'', JStr [915, 961, 943, 960, 951])])) =
     Inl UnicodeEncodeError"
  by code_simp

end
